theory Spec2Isabelle
  imports Main "HOL-Library.AList" "HOL-Library.Sublist" "HOL-Library.Log_Nat"
begin

chapter \<open>Medical\_RAG: an embedding of the ingestion and problem-detection code\<close>

text \<open>
  The development follows the four Python sources: \<^verbatim>\<open>medical_db.py\<close> (the SQLite
  store), \<^verbatim>\<open>medical_extractor.py\<close> (the LLM extraction call), \<^verbatim>\<open>1app.py\<close>
  (range merging and identity resolution) and \<^verbatim>\<open>pages/1_Problems.py\<close> (abnormal
  value detection). Text is modelled as \<^typ>\<open>string\<close> restricted to ASCII: on that
  range the string operations below agree with Python's \<^verbatim>\<open>str\<close> methods.
\<close>

section \<open>Python string operations\<close>

definition ascii_uppercase :: string where
  "ascii_uppercase = ''ABCDEFGHIJKLMNOPQRSTUVWXYZ''"

definition ascii_lowercase :: string where
  "ascii_lowercase = ''abcdefghijklmnopqrstuvwxyz''"

text \<open>\<^verbatim>\<open>str.lower\<close>: every upper-case letter is replaced by its lower-case one.\<close>

definition lower_char :: "char \<Rightarrow> char" where
  "lower_char c =
     (case map_of (zip ascii_uppercase ascii_lowercase) c of Some d \<Rightarrow> d | None \<Rightarrow> c)"

definition py_lower :: "string \<Rightarrow> string" where
  "py_lower s = map lower_char s"

text \<open>
  \<^verbatim>\<open>str.strip\<close> removes the characters for which \<^verbatim>\<open>str.isspace\<close> holds; the
  conversion \<^verbatim>\<open>float\<close> skips the C whitespace only.
\<close>

definition float_space :: string where
  "float_space = [CHR 0x09, CHR 0x0A, CHR 0x0B, CHR 0x0C, CHR 0x0D, CHR 0x20]"

definition py_space :: string where
  "py_space = float_space @ [CHR 0x1C, CHR 0x1D, CHR 0x1E, CHR 0x1F]"

definition strip_chars :: "string \<Rightarrow> string \<Rightarrow> string" where
  "strip_chars ws s =
     rev (dropWhile (\<lambda>c. c \<in> set ws) (rev (dropWhile (\<lambda>c. c \<in> set ws) s)))"

definition py_strip :: "string \<Rightarrow> string" where
  "py_strip s = strip_chars py_space s"

text \<open>
  \<^verbatim>\<open>s.replace(old, new)\<close>: the occurrences of \<^verbatim>\<open>old\<close> are replaced from left to
  right without overlap; an empty \<^verbatim>\<open>old\<close> matches before every character and at the end.
\<close>

function replace_from :: "string \<Rightarrow> string \<Rightarrow> string \<Rightarrow> string" where
  "replace_from old new [] = []"
| "replace_from old new (c # cs) =
     (if old \<noteq> [] \<and> prefix old (c # cs)
      then new @ replace_from old new (drop (length old) (c # cs))
      else c # replace_from old new cs)"
  by pat_completeness auto
termination
  by (relation "measure (\<lambda>(old, new, s). length s)") auto

definition py_replace :: "string \<Rightarrow> string \<Rightarrow> string \<Rightarrow> string" where
  "py_replace old new s =
     (if old = [] then new @ concat (map (\<lambda>c. c # new) s) else replace_from old new s)"

text \<open>\<^verbatim>\<open>pat in s\<close> on strings: \<^verbatim>\<open>pat\<close> occurs as a contiguous part of \<^verbatim>\<open>s\<close>.\<close>

fun py_contains :: "string \<Rightarrow> string \<Rightarrow> bool" where
  "py_contains pat [] = (pat = [])"
| "py_contains pat (c # cs) = (prefix pat (c # cs) \<or> py_contains pat cs)"

text \<open>\<^verbatim>\<open>s.split(sep)\<close> for a separator of one character.\<close>

fun py_split_char :: "char \<Rightarrow> string \<Rightarrow> string list" where
  "py_split_char sep [] = [[]]"
| "py_split_char sep (c # cs) =
     (if c = sep then [] # py_split_char sep cs
      else (case py_split_char sep cs of
              [] \<Rightarrow> [[c]]
            | p # ps \<Rightarrow> (c # p) # ps))"

section \<open>Python exceptions and floating-point numbers\<close>

datatype py_error =
  ValueError | TypeError | AttributeError | KeyError | OverflowError
  | JSONDecodeError | RequestException | ProgrammingError

text \<open>
  A \<^verbatim>\<open>float\<close> is an IEEE binary64 number: a finite one is modelled by its exact
  rational value (the two zeros are one value), and comparisons with \<^verbatim>\<open>nan\<close> are false.
\<close>

datatype pyfloat = Finite rat | PosInf | NegInf | NaN

fun flt_less :: "pyfloat \<Rightarrow> pyfloat \<Rightarrow> bool" where
  "flt_less (Finite x) (Finite y) = (x < y)"
| "flt_less NaN _ = False"
| "flt_less _ NaN = False"
| "flt_less NegInf (Finite y) = True"
| "flt_less NegInf PosInf = True"
| "flt_less (Finite x) PosInf = True"
| "flt_less _ _ = False"

definition flt_ge :: "pyfloat \<Rightarrow> pyfloat \<Rightarrow> bool" where
  "flt_ge x y = (x \<noteq> NaN \<and> y \<noteq> NaN \<and> \<not> flt_less x y)"

definition pow2 :: "int \<Rightarrow> rat" where
  "pow2 e = (if 0 \<le> e then 2 ^ nat e else 1 / 2 ^ nat (- e))"

definition pow10 :: "int \<Rightarrow> rat" where
  "pow10 e = (if 0 \<le> e then 10 ^ nat e else 1 / 10 ^ nat (- e))"

definition round_half_even :: "rat \<Rightarrow> int" where
  "round_half_even x =
     (let f = \<lfloor>x\<rfloor>; d = x - of_int f
      in if d < 1 / 2 then f else if 1 / 2 < d then f + 1 else if even f then f else f + 1)"

definition floor_log2 :: "rat \<Rightarrow> int" where
  "floor_log2 q =
     (let (a, b) = quotient_of q; d = bitlen a - bitlen b
      in if pow2 d \<le> q then d else d - 1)"

text \<open>
  Rounding of a positive rational to the nearest binary64 number, ties to even: 53
  significant bits, the least exponent $-1022$ (below it the spacing stays $2^{-1074}$),
  and overflow from $2^{1024}$ on.
\<close>

definition round_double_pos :: "rat \<Rightarrow> rat option" where
  "round_double_pos q =
     (let e = max (floor_log2 q) (- 1022); ulp = pow2 (e - 52);
          r = of_int (round_half_even (q / ulp)) * ulp
      in if pow2 1024 \<le> r then None else Some r)"

definition round_double :: "rat \<Rightarrow> pyfloat" where
  "round_double q =
     (if q = 0 then Finite 0
      else if 0 < q then (case round_double_pos q of None \<Rightarrow> PosInf | Some r \<Rightarrow> Finite r)
      else (case round_double_pos (- q) of None \<Rightarrow> NegInf | Some r \<Rightarrow> Finite (- r)))"

text \<open>
  \<^verbatim>\<open>float(s)\<close> for a string, after the grammar of the language reference: optional
  sign, then \<^verbatim>\<open>inf\<close>, \<^verbatim>\<open>infinity\<close>, \<^verbatim>\<open>nan\<close> (in any letter case) or a decimal
  number with optional fraction and exponent, where digits may be grouped by single
  underscores. Anything else raises \<^verbatim>\<open>ValueError\<close>.
\<close>

definition digit_chars :: string where
  "digit_chars = ''0123456789''"

definition is_digit :: "char \<Rightarrow> bool" where
  "is_digit c = (c \<in> set digit_chars)"

definition digit_val :: "char \<Rightarrow> int" where
  "digit_val c = int (length (takeWhile (\<lambda>d. d \<noteq> c) digit_chars))"

definition int_of_digits :: "string \<Rightarrow> int" where
  "int_of_digits ds = foldl (\<lambda>n c. 10 * n + digit_val c) 0 ds"

fun digitpart :: "string \<Rightarrow> bool" where
  "digitpart [] = False"
| "digitpart [c] = is_digit c"
| "digitpart (c # d # cs) =
     (is_digit c \<and> (if d = CHR ''_'' then digitpart cs else digitpart (d # cs)))"

definition split_first :: "char \<Rightarrow> string \<Rightarrow> string \<times> string option" where
  "split_first c s =
     (takeWhile (\<lambda>d. d \<noteq> c) s,
      case dropWhile (\<lambda>d. d \<noteq> c) s of [] \<Rightarrow> None | _ # r \<Rightarrow> Some r)"

definition drop_sign :: "string \<Rightarrow> bool \<times> string" where
  "drop_sign s =
     (case s of
        [] \<Rightarrow> (False, [])
      | c # r \<Rightarrow> if c = CHR ''-'' then (True, r)
                 else if c = CHR ''+'' then (False, r) else (False, s))"

definition mantissa_ok :: "string \<Rightarrow> string option \<Rightarrow> bool" where
  "mantissa_ok ip fp =
     (case fp of
        None \<Rightarrow> digitpart ip
      | Some f \<Rightarrow> (ip = [] \<or> digitpart ip) \<and> (f = [] \<or> digitpart f) \<and> \<not> (ip = [] \<and> f = []))"

definition exponent_ok :: "string option \<Rightarrow> bool" where
  "exponent_ok ex = (case ex of None \<Rightarrow> True | Some x \<Rightarrow> digitpart (snd (drop_sign x)))"

definition exponent_val :: "string option \<Rightarrow> int" where
  "exponent_val ex =
     (case ex of
        None \<Rightarrow> 0
      | Some x \<Rightarrow> (let (neg, ds) = drop_sign x; n = int_of_digits (filter is_digit ds)
                   in if neg then - n else n))"

definition decimal_value :: "string \<Rightarrow> string option \<Rightarrow> string option \<Rightarrow> rat" where
  "decimal_value ip fp ex =
     (let fd = filter is_digit (case fp of None \<Rightarrow> [] | Some f \<Rightarrow> f)
      in of_int (int_of_digits (filter is_digit ip @ fd))
         * pow10 (exponent_val ex - int (length fd)))"

text \<open>The characters that occur in a lower-cased float literal.\<close>

definition float_chars :: string where
  "float_chars = ''0123456789_.e+-infatyn''"

definition py_float :: "string \<Rightarrow> py_error + pyfloat" where
  "py_float s =
     (let (neg, body) = drop_sign (py_lower (strip_chars float_space s))
      in if body = ''inf'' \<or> body = ''infinity'' then Inr (if neg then NegInf else PosInf)
         else if body = ''nan'' then Inr NaN
         else let (mant, ex) = split_first (CHR ''e'') body;
                  (ip, fp) = split_first (CHR ''.'') mant
              in if mantissa_ok ip fp \<and> exponent_ok ex
                 then Inr (round_double ((if neg then - 1 else 1) * decimal_value ip fp ex))
                 else Inl ValueError)"

section \<open>medical\_db.py: the explanation table\<close>

text \<open>
  Table \<^verbatim>\<open>test_explanations\<close> is a list of rows in insertion order; its primary key is
  the triple of the first three columns. The callers pass text in every column.
\<close>

record explanation_row =
  ex_test_name :: string
  ex_test_context :: string
  ex_abnormal_type :: string
  ex_explanation :: string

type_synonym test_explanations = "explanation_row list"

definition ex_key :: "explanation_row \<Rightarrow> string \<times> string \<times> string" where
  "ex_key r = (ex_test_name r, ex_test_context r, ex_abnormal_type r)"

text \<open>
  \<^verbatim>\<open>SELECT explanation ... WHERE test_name = ? AND test_context = ? AND abnormal_type = ?\<close>
  with parameters \<^verbatim>\<open>(test_name.lower(), test_context.lower(), abnormal_type)\<close>, then
  \<^verbatim>\<open>fetchone\<close>: the first matching row, or \<^verbatim>\<open>None\<close>.
\<close>

definition get_test_explanation ::
  "test_explanations \<Rightarrow> string \<Rightarrow> string \<Rightarrow> string \<Rightarrow> string option" where
  "get_test_explanation tbl test_name test_context abnormal_type =
     (case filter (\<lambda>r. ex_key r = (py_lower test_name, py_lower test_context, abnormal_type)) tbl of
        [] \<Rightarrow> None
      | r # _ \<Rightarrow> Some (ex_explanation r))"

text \<open>
  \<^verbatim>\<open>INSERT OR REPLACE\<close>: rows that conflict on the primary key are deleted, then the
  new row is added.
\<close>

definition save_test_explanation ::
  "test_explanations \<Rightarrow> string \<Rightarrow> string \<Rightarrow> string \<Rightarrow> string \<Rightarrow> test_explanations" where
  "save_test_explanation tbl test_name test_context abnormal_type explanation =
     (let k = (py_lower test_name, py_lower test_context, abnormal_type)
      in filter (\<lambda>r. ex_key r \<noteq> k) tbl @
         [\<lparr>ex_test_name = py_lower test_name, ex_test_context = py_lower test_context,
           ex_abnormal_type = abnormal_type, ex_explanation = explanation\<rparr>])"

text \<open>\<^verbatim>\<open>DELETE FROM test_explanations\<close>.\<close>

definition clear_test_explanations :: "test_explanations \<Rightarrow> test_explanations" where
  "clear_test_explanations tbl = []"

section \<open>pages/1\_Problems.py: abnormal values\<close>

text \<open>
  The stored value and range are \<^verbatim>\<open>TEXT\<close> columns: a string, or \<^verbatim>\<open>None\<close> for
  SQL \<^verbatim>\<open>NULL\<close>. \<^verbatim>\<open>parse_value\<close> turns every exception into \<^verbatim>\<open>None\<close>.
\<close>

definition parse_value :: "string option \<Rightarrow> pyfloat option" where
  "parse_value v =
     (case v of
        None \<Rightarrow> None
      | Some s \<Rightarrow>
          (case py_float (py_strip (py_replace ''L'' [] (py_replace ''H'' [] s))) of
             Inl _ \<Rightarrow> None
           | Inr x \<Rightarrow> Some x))"

text \<open>
  The three \<^verbatim>\<open>if\<close> statements inside the \<^verbatim>\<open>try\<close> block of \<^verbatim>\<open>get_abnormal_type\<close>.
  Each one either raises (\<open>Inl\<close>), returns a classification (\<open>Inr (Some _)\<close>) or lets
  control reach the next statement (\<open>Inr None\<close>). In the first, \<^verbatim>\<open>float(high)\<close> is
  evaluated only after the comparison with \<^verbatim>\<open>float(low)\<close> has not returned.
\<close>

definition shape_interval :: "pyfloat \<Rightarrow> string \<Rightarrow> py_error + string option" where
  "shape_interval v rng =
     (if CHR ''-'' \<in> set rng then
        (case py_split_char (CHR ''-'') rng of
           [low, high] \<Rightarrow>
             (case py_float low of
                Inl e \<Rightarrow> Inl e
              | Inr lo \<Rightarrow>
                  if flt_less v lo then Inr (Some ''low'')
                  else (case py_float high of
                          Inl e \<Rightarrow> Inl e
                        | Inr hi \<Rightarrow> if flt_less hi v then Inr (Some ''high'') else Inr None))
         | _ \<Rightarrow> Inl ValueError)
      else Inr None)"

definition shape_upper :: "pyfloat \<Rightarrow> string \<Rightarrow> py_error + string option" where
  "shape_upper v rng =
     (if py_contains ''upto'' rng \<or> prefix ''<'' rng then
        (case py_float (py_replace ''<'' [] (py_replace ''upto'' [] rng)) of
           Inl e \<Rightarrow> Inl e
         | Inr limit \<Rightarrow> if flt_less limit v then Inr (Some ''high'') else Inr None)
      else Inr None)"

definition shape_lower :: "pyfloat \<Rightarrow> string \<Rightarrow> py_error + string option" where
  "shape_lower v rng =
     (if py_contains ''morethan'' rng \<or> prefix ''>'' rng then
        (case py_float (py_replace ''>'' [] (py_replace ''morethan'' [] rng)) of
           Inl e \<Rightarrow> Inl e
         | Inr limit \<Rightarrow> if flt_less v limit then Inr (Some ''low'') else Inr None)
      else Inr None)"

text \<open>Statement sequencing: the second statement runs when the first neither raised nor returned.\<close>

definition and_then ::
  "py_error + string option \<Rightarrow> py_error + string option \<Rightarrow> py_error + string option" where
  "and_then a b = (case a of Inl e \<Rightarrow> Inl e | Inr (Some r) \<Rightarrow> Inr (Some r) | Inr None \<Rightarrow> b)"

definition normalize_range :: "string \<Rightarrow> string" where
  "normalize_range normal_range = py_replace '' '' [] (py_lower normal_range)"

definition try_block :: "pyfloat \<Rightarrow> string \<Rightarrow> py_error + string option" where
  "try_block v normal_range =
     (let rng = normalize_range normal_range
      in and_then (shape_interval v rng) (and_then (shape_upper v rng) (shape_lower v rng)))"

text \<open>
  \<^verbatim>\<open>get_abnormal_type\<close>: \<^verbatim>\<open>except Exception: return None\<close> and the final
  \<^verbatim>\<open>return None\<close> give the same result.
\<close>

definition get_abnormal_type :: "string option \<Rightarrow> string option \<Rightarrow> string option" where
  "get_abnormal_type raw_value normal_range =
     (case parse_value raw_value of
        None \<Rightarrow> None
      | Some v \<Rightarrow>
          (case normal_range of
             None \<Rightarrow> None
           | Some nr \<Rightarrow>
               if nr = [] then None
               else (case try_block v nr of Inl _ \<Rightarrow> None | Inr r \<Rightarrow> r)))"

section \<open>The detector as the specification words it\<close>

text \<open>
  Two readings taken from the specification text, to be compared with the functions
  above. The first evaluates the first matching range shape only; the second removes
  flag letters at the end of the value text only.
\<close>

definition first_match_only :: "string option \<Rightarrow> string option \<Rightarrow> string option" where
  "first_match_only raw_value normal_range =
     (case parse_value raw_value of
        None \<Rightarrow> None
      | Some v \<Rightarrow>
          (case normal_range of
             None \<Rightarrow> None
           | Some nr \<Rightarrow>
               if nr = [] then None
               else let rng = normalize_range nr;
                        r = (if CHR ''-'' \<in> set rng then shape_interval v rng
                             else if py_contains ''upto'' rng \<or> prefix ''<'' rng
                               then shape_upper v rng
                             else if py_contains ''morethan'' rng \<or> prefix ''>'' rng
                               then shape_lower v rng
                             else Inr None)
                    in (case r of Inl _ \<Rightarrow> None | Inr c \<Rightarrow> c)))"

definition strip_trailing_flags :: "string \<Rightarrow> string" where
  "strip_trailing_flags s =
     py_strip (rev (dropWhile (\<lambda>c. c = CHR ''H'' \<or> c = CHR ''L'') (rev (py_strip s))))"

definition parse_value_trailing_flags :: "string option \<Rightarrow> pyfloat option" where
  "parse_value_trailing_flags v =
     (case v of
        None \<Rightarrow> None
      | Some s \<Rightarrow> (case py_float (strip_trailing_flags s) of Inl _ \<Rightarrow> None | Inr x \<Rightarrow> Some x))"

section \<open>JSON values and Python dictionaries\<close>

text \<open>
  What \<^verbatim>\<open>json.loads\<close> returns. A dictionary is an association list read with
  \<^const>\<open>map_of\<close> and written with \<^const>\<open>AList.update\<close>.
\<close>

datatype json =
  JNull | JBool bool | JInt int | JFloat pyfloat | JStr string
  | JArr "json list" | JObj "(string \<times> json) list"

type_synonym dict = "(string \<times> json) list"

text \<open>\<^verbatim>\<open>d.get(k)\<close>, \<^verbatim>\<open>d.get(k, default)\<close>, \<^verbatim>\<open>d[k]\<close> and \<^verbatim>\<open>d[k] = v\<close>.\<close>

definition dict_get :: "dict \<Rightarrow> string \<Rightarrow> json" where
  "dict_get d k = (case map_of d k of None \<Rightarrow> JNull | Some v \<Rightarrow> v)"

definition dict_get_default :: "dict \<Rightarrow> string \<Rightarrow> json \<Rightarrow> json" where
  "dict_get_default d k dflt = (case map_of d k of None \<Rightarrow> dflt | Some v \<Rightarrow> v)"

definition dict_index :: "dict \<Rightarrow> string \<Rightarrow> py_error + json" where
  "dict_index d k = (case map_of d k of None \<Rightarrow> Inl KeyError | Some v \<Rightarrow> Inr v)"

definition dict_set :: "dict \<Rightarrow> string \<Rightarrow> json \<Rightarrow> dict" where
  "dict_set d k v = AList.update k v d"

text \<open>Truth value testing, and \<^verbatim>\<open>a or b\<close>.\<close>

fun truthy :: "json \<Rightarrow> bool" where
  "truthy JNull = False"
| "truthy (JBool b) = b"
| "truthy (JInt i) = (i \<noteq> 0)"
| "truthy (JFloat f) = (f \<noteq> Finite 0)"
| "truthy (JStr s) = (s \<noteq> [])"
| "truthy (JArr xs) = (xs \<noteq> [])"
| "truthy (JObj kvs) = (kvs \<noteq> [])"

definition py_or :: "json \<Rightarrow> json \<Rightarrow> json" where
  "py_or a b = (if truthy a then a else b)"

text \<open>
  The receiver of a string method (\<^verbatim>\<open>.lower()\<close>, \<^verbatim>\<open>.strip()\<close>): any value that is
  not a \<^verbatim>\<open>str\<close> raises \<^verbatim>\<open>AttributeError\<close>.
\<close>

definition as_str :: "json \<Rightarrow> py_error + string" where
  "as_str v = (case v of JStr s \<Rightarrow> Inr s | _ \<Rightarrow> Inl AttributeError)"

text \<open>
  \<^verbatim>\<open>str(v)\<close>: a string is returned as it is; the text of any other value (digits of a
  number, \<^verbatim>\<open>True\<close>, a list display) is given by the parameter \<open>repr\<close>.
\<close>

definition py_str :: "(json \<Rightarrow> string) \<Rightarrow> json \<Rightarrow> string" where
  "py_str repr v = (case v of JStr s \<Rightarrow> s | _ \<Rightarrow> repr v)"

text \<open>
  \<^verbatim>\<open>float(v)\<close>: a float is itself, an integer is rounded (and raises when it is out of
  range), a Boolean is 1.0 or 0.0, a string is parsed, anything else is a type error.
\<close>

definition json_float :: "json \<Rightarrow> py_error + pyfloat" where
  "json_float v =
     (case v of
        JFloat f \<Rightarrow> Inr f
      | JInt i \<Rightarrow> (case round_double (of_int i) of
                     PosInf \<Rightarrow> Inl OverflowError
                   | NegInf \<Rightarrow> Inl OverflowError
                   | f \<Rightarrow> Inr f)
      | JBool b \<Rightarrow> Inr (Finite (if b then 1 else 0))
      | JStr s \<Rightarrow> py_float s
      | _ \<Rightarrow> Inl TypeError)"

text \<open>\<^verbatim>\<open>for x in v\<close>: a list gives its items, a dictionary its keys, a string its characters.\<close>

definition py_iter :: "json \<Rightarrow> py_error + json list" where
  "py_iter v =
     (case v of
        JArr xs \<Rightarrow> Inr xs
      | JObj kvs \<Rightarrow> Inr (map JStr (remdups (map fst kvs)))
      | JStr s \<Rightarrow> Inr (map (\<lambda>c. JStr [c]) s)
      | _ \<Rightarrow> Inl TypeError)"

text \<open>\<^verbatim>\<open>v[k]\<close> with a string key: only a dictionary can be indexed by it.\<close>

definition py_subscript :: "json \<Rightarrow> string \<Rightarrow> py_error + json" where
  "py_subscript v k = (case v of JObj d \<Rightarrow> dict_index d k | _ \<Rightarrow> Inl TypeError)"

section \<open>medical\_db.py: test results\<close>

text \<open>
  A row of \<^verbatim>\<open>test_results\<close> without its generated \<^verbatim>\<open>result_id\<close>; the table is the
  list of its rows in insertion order.
\<close>

record test_result =
  tr_report_id :: int
  tr_canonical_id :: json
  tr_test_name :: string
  tr_test_context :: string
  tr_value :: string
  tr_unit :: string
  tr_normal_range :: string

text \<open>
  Parameter binding of \<^verbatim>\<open>sqlite3\<close>: lists and dictionaries are not supported, and an
  integer must fit 64 bits.
\<close>

definition sqlite_bind :: "json \<Rightarrow> py_error + json" where
  "sqlite_bind v =
     (case v of
        JArr _ \<Rightarrow> Inl ProgrammingError
      | JObj _ \<Rightarrow> Inl ProgrammingError
      | JInt i \<Rightarrow> if - (2 ^ 63) \<le> i \<and> i < 2 ^ 63 then Inr v else Inl OverflowError
      | _ \<Rightarrow> Inr v)"

text \<open>
  The body of the loop in \<^verbatim>\<open>insert_test_results\<close> for one entry: it raises, skips the
  entry (\<^verbatim>\<open>continue\<close>, \<open>Inr None\<close>) or inserts a row.
\<close>

definition test_row :: "(json \<Rightarrow> string) \<Rightarrow> int \<Rightarrow> dict \<Rightarrow> py_error + test_result option" where
  "test_row repr report_id t =
     (let canonical_id = dict_get t ''canonical_id'' in
      case as_str (py_or (dict_get t ''test_name'') (JStr [])) of
        Inl e \<Rightarrow> Inl e
      | Inr n \<Rightarrow>
      (case as_str (py_or (dict_get t ''test_context'') (JStr [])) of
        Inl e \<Rightarrow> Inl e
      | Inr c \<Rightarrow>
      (case as_str (py_or (dict_get t ''reference_range'')
                     (py_or (dict_get t ''normal_range'') (JStr []))) of
        Inl e \<Rightarrow> Inl e
      | Inr r \<Rightarrow>
          let test_name = py_lower (py_strip n);
              test_context = py_lower (py_strip c);
              val = py_strip (py_str repr (py_or (dict_get t ''value'') (JStr [])));
              unit = py_strip (py_str repr (py_or (dict_get t ''unit'') (JStr [])));
              normal_range = py_strip r
          in if test_name = [] \<or> val = [] then Inr None
             else (case sqlite_bind canonical_id of
                     Inl e \<Rightarrow> Inl e
                   | Inr cid \<Rightarrow>
                       Inr (Some \<lparr>tr_report_id = report_id, tr_canonical_id = cid,
                                 tr_test_name = test_name, tr_test_context = test_context,
                                 tr_value = val, tr_unit = unit,
                                 tr_normal_range = normal_range\<rparr>)))))"

fun insert_rows ::
  "(json \<Rightarrow> string) \<Rightarrow> int \<Rightarrow> dict list \<Rightarrow> test_result list \<Rightarrow> py_error + test_result list" where
  "insert_rows repr report_id [] rows = Inr rows"
| "insert_rows repr report_id (t # ts) rows =
     (case test_row repr report_id t of
        Inl e \<Rightarrow> Inl e
      | Inr None \<Rightarrow> insert_rows repr report_id ts rows
      | Inr (Some r) \<Rightarrow> insert_rows repr report_id ts (rows @ [r]))"

text \<open>
  \<^verbatim>\<open>insert_test_results\<close>: the exception raised, if any, and the table afterwards. The
  rows are committed after the loop; when the loop raises, \<^verbatim>\<open>commit\<close> is not reached
  and the table is as before.
\<close>

definition insert_test_results ::
  "(json \<Rightarrow> string) \<Rightarrow> test_result list \<Rightarrow> int \<Rightarrow> dict list \<Rightarrow> py_error option \<times> test_result list" where
  "insert_test_results repr table report_id tests =
     (case insert_rows repr report_id tests table of
        Inl e \<Rightarrow> (Some e, table)
      | Inr rows \<Rightarrow> (None, rows))"

section \<open>medical\_extractor.py\<close>

text \<open>\<^verbatim>\<open>re.sub(r"\s+", " ", name)\<close>: every run of whitespace becomes one blank.\<close>

function collapse_ws :: "string \<Rightarrow> string" where
  "collapse_ws [] = []"
| "collapse_ws (c # cs) =
     (if c \<in> set py_space
      then CHR '' '' # collapse_ws (dropWhile (\<lambda>d. d \<in> set py_space) cs)
      else c # collapse_ws cs)"
  by pat_completeness auto
termination
  by (relation "measure length") (auto simp: length_dropWhile_le less_Suc_eq_le)

definition normalize_test_name :: "string \<Rightarrow> string" where
  "normalize_test_name name =
     py_strip (py_replace '', '' '','' (py_replace '' ,'' '','' (collapse_ws (py_lower name))))"

text \<open>
  One round of the loop \<^verbatim>\<open>for t in tests\<close>: \<^verbatim>\<open>t.get\<close> needs a dictionary and
  \<^verbatim>\<open>normalize_test_name\<close> a string.
\<close>

definition normalize_entry :: "json \<Rightarrow> py_error + dict" where
  "normalize_entry t =
     (case t of
        JObj d \<Rightarrow>
          if truthy (dict_get d ''test_name'') then
            (case as_str (dict_get d ''test_name'') of
               Inl e \<Rightarrow> Inl e
             | Inr n \<Rightarrow> Inr (dict_set d ''test_name'' (JStr (normalize_test_name n))))
          else Inr d
      | _ \<Rightarrow> Inl AttributeError)"

fun normalize_all :: "json list \<Rightarrow> py_error + dict list" where
  "normalize_all [] = Inr []"
| "normalize_all (t # ts) =
     (case normalize_entry t of
        Inl e \<Rightarrow> Inl e
      | Inr d \<Rightarrow> (case normalize_all ts of Inl e \<Rightarrow> Inl e | Inr ds \<Rightarrow> Inr (d # ds)))"

text \<open>
  The second \<^verbatim>\<open>try\<close> block of \<^verbatim>\<open>extract_tests_from_page\<close>. The parameter \<open>loads\<close> is
  \<^verbatim>\<open>json.loads\<close> on text, \<open>None\<close> where it raises. The value returned is the sequence
  iterated by the loop; the empty dictionary and the empty string, which the loop
  accepts, are represented by the empty list.
\<close>

definition parse_tests :: "(string \<Rightarrow> json option) \<Rightarrow> string \<Rightarrow> py_error + dict list" where
  "parse_tests loads raw =
     (case loads raw of
        None \<Rightarrow> Inl JSONDecodeError
      | Some parsed \<Rightarrow>
          (case parsed of
             JObj d \<Rightarrow>
               (case py_iter (dict_get_default d ''tests'' (JArr [])) of
                  Inl e \<Rightarrow> Inl e
                | Inr ts \<Rightarrow> normalize_all ts)
           | _ \<Rightarrow> Inl AttributeError))"

text \<open>
  \<^verbatim>\<open>extract_tests_from_page\<close>. The parameter \<open>post\<close> is the HTTP exchange for the
  prompt built around the page text: an exception of \<^verbatim>\<open>requests\<close>, or the body of the
  response. Only the call of \<^verbatim>\<open>requests.post\<close> and the final parsing stand inside
  \<^verbatim>\<open>try\<close> blocks; \<^verbatim>\<open>res.json().get("response", "").strip()\<close> stands between them.
\<close>

definition extract_tests_from_page ::
  "(string \<Rightarrow> json option) \<Rightarrow> (string \<Rightarrow> py_error + string) \<Rightarrow> string \<Rightarrow> py_error + dict list" where
  "extract_tests_from_page loads post page_text =
     (case post page_text of
        Inl e \<Rightarrow> if e = RequestException then Inr [] else Inl e
      | Inr body \<Rightarrow>
          (case loads body of
             None \<Rightarrow> Inl JSONDecodeError
           | Some res \<Rightarrow>
               (case res of
                  JObj d \<Rightarrow>
                    (case as_str (dict_get_default d ''response'' (JStr [])) of
                       Inl e \<Rightarrow> Inl e
                     | Inr raw \<Rightarrow>
                         (case parse_tests loads (py_strip raw) of
                            Inl _ \<Rightarrow> Inr []
                          | Inr tests \<Rightarrow> Inr tests))
                | _ \<Rightarrow> Inl AttributeError)))"

section \<open>1app.py: classification and range recovery\<close>

definition MATCH_CONFIDENCE_THRESHOLD :: pyfloat where
  "MATCH_CONFIDENCE_THRESHOLD = round_double (9 / 10)"

definition classify_test_type :: "string \<Rightarrow> string \<Rightarrow> string" where
  "classify_test_type test_name unit =
     (if CHR ''/'' \<in> set (py_lower test_name) \<or> py_lower unit = ''ratio''
      then ''ratio'' else ''concentration'')"

definition extract_panel :: "string \<Rightarrow> string" where
  "extract_panel test_name =
     (let n = py_lower test_name
      in if list_ex (\<lambda>x. py_contains x n) [''thyroid'', ''tsh'', ''t3'', ''t4''] then ''thyroid''
         else if list_ex (\<lambda>x. py_contains x n)
                   [''cholesterol'', ''triglyceride'', ''hdl'', ''ldl'', ''vldl'', ''lipid'']
           then ''lipid''
         else if py_contains ''bilirubin'' n \<or> py_contains ''liver'' n then ''liver''
         else ''unknown'')"

text \<open>
  The same two functions called with values that need not be strings: the name is
  lower-cased first, and the unit is only touched when the name has no slash.
\<close>

definition classify_test_type_of :: "json \<Rightarrow> json \<Rightarrow> py_error + string" where
  "classify_test_type_of test_name unit =
     (case as_str test_name of
        Inl e \<Rightarrow> Inl e
      | Inr n \<Rightarrow>
          if CHR ''/'' \<in> set (py_lower n) then Inr ''ratio''
          else (case as_str unit of
                  Inl e \<Rightarrow> Inl e
                | Inr u \<Rightarrow> Inr (if py_lower u = ''ratio'' then ''ratio'' else ''concentration'')))"

definition extract_panel_of :: "json \<Rightarrow> py_error + string" where
  "extract_panel_of test_name =
     (case as_str test_name of Inl e \<Rightarrow> Inl e | Inr n \<Rightarrow> Inr (extract_panel n))"

text \<open>\<^verbatim>\<open>str.splitlines\<close> followed by the removal of blank lines, and \<^verbatim>\<open>str.isupper\<close>.\<close>

definition line_breaks :: string where
  "line_breaks = [CHR 0x0A, CHR 0x0B, CHR 0x0C, CHR 0x0D, CHR 0x1C, CHR 0x1D, CHR 0x1E]"

fun split_where :: "(char \<Rightarrow> bool) \<Rightarrow> string \<Rightarrow> string list" where
  "split_where P [] = [[]]"
| "split_where P (c # cs) =
     (if P c then [] # split_where P cs
      else (case split_where P cs of
              [] \<Rightarrow> [[c]]
            | p # ps \<Rightarrow> (c # p) # ps))"

definition nonblank_lines :: "string \<Rightarrow> string list" where
  "nonblank_lines page_text =
     filter (\<lambda>l. l \<noteq> []) (map py_strip (split_where (\<lambda>c. c \<in> set line_breaks) page_text))"

definition py_isupper :: "string \<Rightarrow> bool" where
  "py_isupper s =
     ((\<exists>c \<in> set s. c \<in> set ascii_uppercase) \<and> (\<forall>c \<in> set s. c \<notin> set ascii_lowercase))"

text \<open>
  The three regular expressions. Each \<open>_at\<close> function gives the match that starts at the
  head of the text, and \<^verbatim>\<open>re.search\<close> takes the leftmost position that has one. A
  number \<^verbatim>\<open>\d+(\.\d+)?\<close> takes all the digits and, when a dot and a digit follow, the
  fraction; no shorter choice lets the rest of these patterns match.
\<close>

definition take_number :: "string \<Rightarrow> (string \<times> string) option" where
  "take_number s =
     (let ds = takeWhile is_digit s; r = dropWhile is_digit s
      in if ds = [] then None
         else (case r of
                 [] \<Rightarrow> Some (ds, r)
               | c # r' \<Rightarrow>
                   if c = CHR ''.'' \<and> takeWhile is_digit r' \<noteq> []
                   then Some (ds @ c # takeWhile is_digit r', dropWhile is_digit r')
                   else Some (ds, r)))"

definition take_space :: "string \<Rightarrow> string \<times> string" where
  "take_space s = (takeWhile (\<lambda>c. c \<in> set py_space) s, dropWhile (\<lambda>c. c \<in> set py_space) s)"

definition interval_at :: "string \<Rightarrow> string option" where
  "interval_at s =
     (case take_number s of
        None \<Rightarrow> None
      | Some (a, r1) \<Rightarrow>
          (let (w1, r2) = take_space r1
           in case r2 of
                [] \<Rightarrow> None
              | c # r3 \<Rightarrow>
                  if c = CHR ''-'' then
                    (let (w2, r4) = take_space r3
                     in case take_number r4 of
                          None \<Rightarrow> None
                        | Some (b, _) \<Rightarrow> Some (a @ w1 @ c # w2 @ b))
                  else None))"

definition limit_number :: "string \<Rightarrow> string \<Rightarrow> string option" where
  "limit_number tok rest =
     (case take_number (snd (take_space rest)) of
        None \<Rightarrow> None
      | Some (n, _) \<Rightarrow> Some (tok @ '' '' @ n))"

definition limit_at :: "string \<Rightarrow> string option" where
  "limit_at s =
     (if prefix ''upto'' (py_lower s) then limit_number (take 4 s) (drop 4 s)
      else if prefix ''<'' s then limit_number ''<'' (drop 1 s)
      else None)"

definition unit_tokens :: "string list" where
  "unit_tokens = [''mg/dl'', ''mg/dl'', ''ug/dl'', ''ng/ml'', ''uiu/ml'', ''ratio'']"

definition unit_at :: "string \<Rightarrow> string option" where
  "unit_at s = find (\<lambda>u. prefix u (py_lower s)) unit_tokens"

fun re_search :: "(string \<Rightarrow> 'a option) \<Rightarrow> string \<Rightarrow> 'a option" where
  "re_search m [] = m []"
| "re_search m (c # cs) = (case m (c # cs) of Some x \<Rightarrow> Some x | None \<Rightarrow> re_search m cs)"

type_synonym range_key = "string \<times> string"

text \<open>The loop of \<^verbatim>\<open>recover_ranges_from_text\<close> with its two variables.\<close>

fun recover_lines ::
  "string list \<Rightarrow> string option \<Rightarrow> (range_key \<times> string) list \<Rightarrow> (range_key \<times> string) list" where
  "recover_lines [] current_test recovered = recovered"
| "recover_lines (line # ls) current_test recovered =
     (if 8 < length line \<and> py_isupper line
         \<and> \<not> list_ex (\<lambda>x. py_contains x line) [''METHOD'', ''PROFILE'']
      then recover_lines ls (Some (py_lower line)) recovered
      else (case current_test of
              None \<Rightarrow> recover_lines ls current_test recovered
            | Some ct \<Rightarrow>
                (let unit = (case re_search unit_at line of None \<Rightarrow> [] | Some u \<Rightarrow> u)
                 in case re_search interval_at line of
                      Some m \<Rightarrow> recover_lines ls current_test (AList.update (ct, unit) m recovered)
                    | None \<Rightarrow>
                        (case re_search limit_at line of
                           Some l \<Rightarrow>
                             recover_lines ls current_test (AList.update (ct, unit) l recovered)
                         | None \<Rightarrow> recover_lines ls current_test recovered))))"

definition recover_ranges_from_text :: "string \<Rightarrow> (range_key \<times> string) list" where
  "recover_ranges_from_text page_text = recover_lines (nonblank_lines page_text) None []"

section \<open>1app.py: the matcher\<close>

record existing_test =
  et_name :: string
  et_unit :: string
  et_type :: string
  et_panel :: string

text \<open>
  \<^verbatim>\<open>get_existing_tests_for_patient\<close>, applied to the rows of its query: the distinct
  pairs of test name and unit stored for the patient.
\<close>

definition get_existing_tests_for_patient :: "(string \<times> string) list \<Rightarrow> existing_test list" where
  "get_existing_tests_for_patient rows =
     map (\<lambda>(name, unit).
            \<lparr>et_name = name, et_unit = unit, et_type = classify_test_type name unit,
             et_panel = extract_panel name\<rparr>) rows"

text \<open>
  The \<^verbatim>\<open>try\<close> block of \<^verbatim>\<open>ai_match_test_name\<close>: the HTTP exchange for the prompt, which
  is built from the new name and the candidate names, then
  \<^verbatim>\<open>json.loads(res.json()["response"])\<close>.
\<close>

definition matcher_output ::
  "(string \<Rightarrow> json option) \<Rightarrow> (string \<Rightarrow> string list \<Rightarrow> py_error + string)
   \<Rightarrow> string \<Rightarrow> string list \<Rightarrow> py_error + json" where
  "matcher_output loads post name candidates =
     (case post name candidates of
        Inl e \<Rightarrow> Inl e
      | Inr body \<Rightarrow>
          (case loads body of
             None \<Rightarrow> Inl JSONDecodeError
           | Some res \<Rightarrow>
               (case py_subscript res ''response'' of
                  Inl e \<Rightarrow> Inl e
                | Inr r \<Rightarrow>
                    (case r of
                       JStr s \<Rightarrow> (case loads s of None \<Rightarrow> Inl JSONDecodeError | Some out \<Rightarrow> Inr out)
                     | _ \<Rightarrow> Inl TypeError))))"

text \<open>
  \<^verbatim>\<open>ai_match_test_name\<close>: \<open>Inr None\<close> is the result \<^verbatim>\<open>None\<close>. The test of the parsed
  output stands after the \<^verbatim>\<open>try\<close> block, so \<^verbatim>\<open>out.get\<close> on a value that is no
  dictionary and a failing \<^verbatim>\<open>float\<close> raise to the caller.
\<close>

definition ai_match_test_name ::
  "(string \<Rightarrow> json option) \<Rightarrow> (string \<Rightarrow> string list \<Rightarrow> py_error + string)
   \<Rightarrow> string \<Rightarrow> existing_test list \<Rightarrow> py_error + json option" where
  "ai_match_test_name loads post name existing_tests =
     (if existing_tests = [] then Inr None
      else (case matcher_output loads post name (map et_name existing_tests) of
              Inl _ \<Rightarrow> Inr None
            | Inr out \<Rightarrow>
                (case out of
                   JObj d \<Rightarrow>
                     if truthy (dict_get d ''match'') then
                       if dict_get d ''match'' \<noteq> JStr ''no_match'' then
                         (case json_float (dict_get_default d ''confidence'' (JInt 0)) of
                            Inl e \<Rightarrow> Inl e
                          | Inr c \<Rightarrow>
                              if flt_ge c MATCH_CONFIDENCE_THRESHOLD
                              then Inr (Some (dict_get d ''match'')) else Inr None)
                       else Inr None
                     else Inr None
                 | _ \<Rightarrow> Inl AttributeError)))"

section \<open>1app.py: merging the pages of a document\<close>

type_synonym range_cache = "(range_key \<times> json) list"

text \<open>
  \<^verbatim>\<open>key = ((t["test_name"] or "").lower(), (t.get("unit") or "").lower())\<close>
\<close>

definition range_key_of :: "dict \<Rightarrow> py_error + range_key" where
  "range_key_of t =
     (case dict_index t ''test_name'' of
        Inl e \<Rightarrow> Inl e
      | Inr n \<Rightarrow>
          (case as_str (py_or n (JStr [])) of
             Inl e \<Rightarrow> Inl e
           | Inr ns \<Rightarrow>
               (case as_str (py_or (dict_get t ''unit'') (JStr [])) of
                  Inl e \<Rightarrow> Inl e
                | Inr us \<Rightarrow> Inr (py_lower ns, py_lower us))))"

text \<open>The body of the loop over the tests of one page.\<close>

definition cache_entry ::
  "(range_key \<times> string) list \<Rightarrow> dict \<Rightarrow> range_cache \<Rightarrow> py_error + range_cache" where
  "cache_entry recovered t range_cache =
     (case range_key_of t of
        Inl e \<Rightarrow> Inl e
      | Inr key \<Rightarrow>
          if truthy (dict_get t ''reference_range'')
          then Inr (AList.update key (dict_get t ''reference_range'') range_cache)
          else (case map_of recovered key of
                  Some r \<Rightarrow> Inr (AList.update key (JStr r) range_cache)
                | None \<Rightarrow> Inr range_cache))"

fun cache_page ::
  "(range_key \<times> string) list \<Rightarrow> dict list \<Rightarrow> range_cache \<Rightarrow> py_error + range_cache" where
  "cache_page recovered [] range_cache = Inr range_cache"
| "cache_page recovered (t # ts) range_cache =
     (case cache_entry recovered t range_cache of
        Inl e \<Rightarrow> Inl e
      | Inr c \<Rightarrow> cache_page recovered ts c)"

text \<open>
  The loop over the pages: \<open>extract\<close> is \<^verbatim>\<open>extract_tests_from_page\<close> with its two
  collaborators fixed, and a page without text is skipped.
\<close>

fun read_pages ::
  "(string \<Rightarrow> py_error + dict list) \<Rightarrow> string list \<Rightarrow> dict list \<Rightarrow> range_cache
   \<Rightarrow> py_error + (dict list \<times> range_cache)" where
  "read_pages extract [] all_tests range_cache = Inr (all_tests, range_cache)"
| "read_pages extract (text # pages) all_tests range_cache =
     (if text = [] then read_pages extract pages all_tests range_cache
      else (case extract text of
              Inl e \<Rightarrow> Inl e
            | Inr page_tests \<Rightarrow>
                (case cache_page (recover_ranges_from_text text) page_tests range_cache of
                   Inl e \<Rightarrow> Inl e
                 | Inr c \<Rightarrow> read_pages extract pages (all_tests @ page_tests) c)))"

text \<open>The second pass over all the tests.\<close>

definition fill_range :: "range_cache \<Rightarrow> dict \<Rightarrow> py_error + dict" where
  "fill_range range_cache t =
     (case range_key_of t of
        Inl e \<Rightarrow> Inl e
      | Inr key \<Rightarrow>
          if \<not> truthy (dict_get t ''reference_range'') then
            (case map_of range_cache key of
               Some r \<Rightarrow> Inr (dict_set t ''reference_range'' r)
             | None \<Rightarrow> Inr t)
          else Inr t)"

fun fill_all :: "range_cache \<Rightarrow> dict list \<Rightarrow> py_error + dict list" where
  "fill_all range_cache [] = Inr []"
| "fill_all range_cache (t # ts) =
     (case fill_range range_cache t of
        Inl e \<Rightarrow> Inl e
      | Inr t' \<Rightarrow> (case fill_all range_cache ts of Inl e \<Rightarrow> Inl e | Inr ts' \<Rightarrow> Inr (t' # ts')))"

definition merge_pages ::
  "(string \<Rightarrow> py_error + dict list) \<Rightarrow> string list \<Rightarrow> py_error + dict list" where
  "merge_pages extract pages =
     (case read_pages extract pages [] [] of
        Inl e \<Rightarrow> Inl e
      | Inr (all_tests, range_cache) \<Rightarrow> fill_all range_cache all_tests)"

section \<open>1app.py: identity resolution\<close>

text \<open>
  The list comprehension that selects the candidates. Its three conditions are joined
  by \<^verbatim>\<open>and\<close>: the unit of the new test is lower-cased only for an entry that agrees in
  type and panel.
\<close>

fun select_candidates ::
  "string \<Rightarrow> string \<Rightarrow> json \<Rightarrow> existing_test list \<Rightarrow> py_error + existing_test list" where
  "select_candidates ty panel unit [] = Inr []"
| "select_candidates ty panel unit (et # ets) =
     (if et_type et = ty \<and> et_panel et = panel then
        (case as_str unit of
           Inl e \<Rightarrow> Inl e
         | Inr u \<Rightarrow>
             (case select_candidates ty panel unit ets of
                Inl e \<Rightarrow> Inl e
              | Inr r \<Rightarrow> Inr (if py_lower (et_unit et) = py_lower u then et # r else r)))
      else select_candidates ty panel unit ets)"

text \<open>The body of the resolution loop for one test.\<close>

definition resolve_test ::
  "(string \<Rightarrow> json option) \<Rightarrow> (string \<Rightarrow> string list \<Rightarrow> py_error + string)
   \<Rightarrow> existing_test list \<Rightarrow> dict \<Rightarrow> py_error + dict" where
  "resolve_test loads post existing_tests t =
     (case dict_index t ''test_name'' of
        Inl e \<Rightarrow> Inl e
      | Inr name \<Rightarrow>
      (let unit = dict_get_default t ''unit'' (JStr []) in
       case classify_test_type_of name unit of
        Inl e \<Rightarrow> Inl e
      | Inr ty \<Rightarrow>
      (case extract_panel_of name of
        Inl e \<Rightarrow> Inl e
      | Inr panel \<Rightarrow>
      (case select_candidates ty panel unit existing_tests of
        Inl e \<Rightarrow> Inl e
      | Inr candidates \<Rightarrow>
      (case as_str name of
        Inl e \<Rightarrow> Inl e
      | Inr n \<Rightarrow>
      (case ai_match_test_name loads post n candidates of
        Inl e \<Rightarrow> Inl e
      | Inr None \<Rightarrow> Inr t
      | Inr (Some matched) \<Rightarrow>
          if truthy matched then Inr (dict_set t ''test_name'' matched) else Inr t))))))"

fun resolve_all ::
  "(string \<Rightarrow> json option) \<Rightarrow> (string \<Rightarrow> string list \<Rightarrow> py_error + string)
   \<Rightarrow> existing_test list \<Rightarrow> dict list \<Rightarrow> py_error + dict list" where
  "resolve_all loads post existing_tests [] = Inr []"
| "resolve_all loads post existing_tests (t # ts) =
     (case resolve_test loads post existing_tests t of
        Inl e \<Rightarrow> Inl e
      | Inr t' \<Rightarrow>
          (case resolve_all loads post existing_tests ts of
             Inl e \<Rightarrow> Inl e
           | Inr ts' \<Rightarrow> Inr (t' # ts')))"

text \<open>
  The processing of an uploaded document once the patient and the report exist: merge
  the pages, resolve the names against the rows stored for the patient, insert.
\<close>

definition add_document ::
  "(string \<Rightarrow> json option) \<Rightarrow> (string \<Rightarrow> py_error + string)
   \<Rightarrow> (string \<Rightarrow> string list \<Rightarrow> py_error + string) \<Rightarrow> (json \<Rightarrow> string)
   \<Rightarrow> test_result list \<Rightarrow> (string \<times> string) list \<Rightarrow> int \<Rightarrow> string list
   \<Rightarrow> py_error option \<times> test_result list" where
  "add_document loads post_extract post_match repr table rows report_id pages =
     (case merge_pages (extract_tests_from_page loads post_extract) pages of
        Inl e \<Rightarrow> (Some e, table)
      | Inr all_tests \<Rightarrow>
          (case resolve_all loads post_match (get_existing_tests_for_patient rows) all_tests of
             Inl e \<Rightarrow> (Some e, table)
           | Inr resolved \<Rightarrow> insert_test_results repr table report_id resolved))"

chapter \<open>Properties\<close>

section \<open>Lower-casing\<close>

lemma lower_char_notin_upper: "lower_char c \<notin> set ascii_uppercase"
  unfolding lower_char_def ascii_uppercase_def ascii_lowercase_def
  by (auto split: option.splits if_splits)

lemma lower_char_fixed: "c \<notin> set ascii_uppercase \<Longrightarrow> lower_char c = c"
  unfolding lower_char_def ascii_uppercase_def ascii_lowercase_def
  by (auto split: option.splits if_splits)

lemma lower_char_idem: "lower_char (lower_char c) = lower_char c"
  by (simp add: lower_char_fixed lower_char_notin_upper)

lemma py_lower_idem: "py_lower (py_lower s) = py_lower s"
  by (simp add: py_lower_def lower_char_idem)

lemmas lower_eval = py_lower_def lower_char_def ascii_uppercase_def ascii_lowercase_def

section \<open>The explanation cache\<close>

lemma get_after_save:
  "get_test_explanation (save_test_explanation tbl n c a e) n' c' a' =
     (if py_lower n' = py_lower n \<and> py_lower c' = py_lower c \<and> a' = a then Some e
      else get_test_explanation tbl n' c' a')"
proof (cases "py_lower n' = py_lower n \<and> py_lower c' = py_lower c \<and> a' = a")
  case True
  then have "filter (\<lambda>r. ex_key r = (py_lower n', py_lower c', a'))
               (filter (\<lambda>r. ex_key r \<noteq> (py_lower n, py_lower c, a)) tbl) = []"
    by (auto simp: filter_empty_conv)
  with True show ?thesis
    by (simp add: get_test_explanation_def save_test_explanation_def ex_key_def)
next
  case False
  then have k: "(py_lower n', py_lower c', a') \<noteq> (py_lower n, py_lower c, a)"
    by auto
  then have "filter (\<lambda>r. ex_key r = (py_lower n', py_lower c', a'))
               (filter (\<lambda>r. ex_key r \<noteq> (py_lower n, py_lower c, a)) tbl)
             = filter (\<lambda>r. ex_key r = (py_lower n', py_lower c', a')) tbl"
    by (auto intro: filter_cong)
  with False k show ?thesis
    by (auto simp: get_test_explanation_def save_test_explanation_def ex_key_def
             split: list.splits)
qed

lemma save_keeps_keys_distinct:
  "distinct (map ex_key tbl) \<Longrightarrow> distinct (map ex_key (save_test_explanation tbl n c a e))"
  by (auto simp: save_test_explanation_def Let_def ex_key_def distinct_map_filter)

lemma save_one_row_per_key:
  "length (filter (\<lambda>r. ex_key r = (py_lower n, py_lower c, a))
            (save_test_explanation tbl n c a e)) = 1"
  by (simp add: save_test_explanation_def Let_def ex_key_def)

text \<open>
  Claim C8, as stated, at the scenario of the specification with the casing of the
  third component changed: the explanation stored under \<^verbatim>\<open>"high"\<close> is not found
  under \<^verbatim>\<open>"HIGH"\<close>, although the two differ in letter case only. The third key
  component is passed to the query as it is.
\<close>

theorem explanation_cache_abnormal_type_case_counterexample:
  "py_lower ''HIGH'' = py_lower ''high'' \<and>
   get_test_explanation
     (save_test_explanation [] ''hba1c'' ''diabetes panel'' ''high'' ''text'')
     ''hba1c'' ''diabetes panel'' ''HIGH'' = None"
  by (simp add: get_test_explanation_def save_test_explanation_def ex_key_def lower_eval)

text \<open>
  Claim C8, amended: the keys of the explanation cache are case-folded on
  \<^verbatim>\<open>test_name\<close> and \<^verbatim>\<open>test_context\<close>, and \<^verbatim>\<open>abnormal_type\<close> is compared
  exactly. For every table, every stored triple and every casing variant of the first
  two components, \<^verbatim>\<open>get\<close> after \<^verbatim>\<open>put\<close> returns the stored text; a later \<^verbatim>\<open>put\<close>
  to the same folded triple overwrites the earlier one; after a \<^verbatim>\<open>put\<close> exactly one row
  carries the folded triple and a table with distinct keys keeps distinct keys; and
  \<^verbatim>\<open>get\<close> after \<^verbatim>\<open>clear\<close> returns absent.
\<close>

theorem explanation_cache_case_folded:
  assumes "py_lower n' = py_lower n" and "py_lower c' = py_lower c"
    and "py_lower n'' = py_lower n" and "py_lower c'' = py_lower c"
  shows "get_test_explanation (save_test_explanation tbl n c a e) n' c' a = Some e \<and>
         get_test_explanation
           (save_test_explanation (save_test_explanation tbl n c a e) n' c' a e2) n'' c'' a
           = Some e2 \<and>
         length (filter (\<lambda>r. ex_key r = (py_lower n, py_lower c, a))
                  (save_test_explanation (save_test_explanation tbl n c a e) n' c' a e2)) = 1 \<and>
         (distinct (map ex_key tbl) \<longrightarrow>
            distinct (map ex_key (save_test_explanation tbl n c a e))) \<and>
         get_test_explanation (clear_test_explanations (save_test_explanation tbl n c a e))
           n' c' a = None"
proof -
  have "get_test_explanation (save_test_explanation tbl n c a e) n' c' a = Some e"
    using assms by (simp add: get_after_save)
  moreover have "get_test_explanation
           (save_test_explanation (save_test_explanation tbl n c a e) n' c' a e2) n'' c'' a
         = Some e2"
    using assms by (simp add: get_after_save)
  moreover have "length (filter (\<lambda>r. ex_key r = (py_lower n, py_lower c, a))
                  (save_test_explanation (save_test_explanation tbl n c a e) n' c' a e2)) = 1"
    using save_one_row_per_key [of n' c' a "save_test_explanation tbl n c a e" e2] assms
    by simp
  moreover have "distinct (map ex_key tbl) \<longrightarrow>
         distinct (map ex_key (save_test_explanation tbl n c a e))"
    by (simp add: save_keeps_keys_distinct)
  moreover have "get_test_explanation
           (clear_test_explanations (save_test_explanation tbl n c a e)) n' c' a = None"
    by (simp add: clear_test_explanations_def get_test_explanation_def)
  ultimately show ?thesis by blast
qed

theorem explanation_cache_case_folded_witness:
  "py_lower ''HbA1c'' = py_lower ''hba1c'' \<and>
   py_lower ''Diabetes Panel'' = py_lower ''diabetes panel'' \<and>
   distinct (map ex_key ([] :: test_explanations)) \<and>
   get_test_explanation
     (save_test_explanation [] ''hba1c'' ''diabetes panel'' ''high'' ''text'')
     ''HbA1c'' ''Diabetes Panel'' ''high'' = Some ''text'' \<and>
   get_test_explanation
     (save_test_explanation
        (save_test_explanation [] ''hba1c'' ''diabetes panel'' ''high'' ''text'')
        ''HbA1c'' ''Diabetes Panel'' ''high'' ''newer'')
     ''HbA1c'' ''Diabetes Panel'' ''high'' = Some ''newer''"
proof -
  have h1: "py_lower ''HbA1c'' = py_lower ''hba1c''"
    by (simp add: lower_eval)
  have h2: "py_lower ''Diabetes Panel'' = py_lower ''diabetes panel''"
    by (simp add: lower_eval)
  show ?thesis
    using h1 h2
      explanation_cache_case_folded [OF h1 h2 h1 h2, of "[]" "''high''" "''text''" "''newer''"]
    by simp
qed

section \<open>Strings and float literals\<close>

lemma replace_from_single: "replace_from [c] [] s = filter (\<lambda>d. d \<noteq> c) s"
  by (induction s) auto

lemma replace_from_keeps:
  "c \<notin> set old \<Longrightarrow> c \<in> set s \<Longrightarrow> c \<in> set (replace_from old [] s)"
proof (induction old "[] :: string" s rule: replace_from.induct)
  case (1 old)
  then show ?case by simp
next
  case (2 old d ds)
  show ?case
  proof (cases "old \<noteq> [] \<and> prefix old (d # ds)")
    case True
    then obtain rest where r: "d # ds = old @ rest" by (auto simp: prefix_def)
    then have "drop (length old) (d # ds) = rest" by (metis append_eq_conv_conj)
    moreover have "c \<in> set rest" using 2(3,4) r by (metis Un_iff set_append)
    ultimately show ?thesis using True 2(1) 2(3) by simp
  next
    case False
    then show ?thesis using 2 by auto
  qed
qed

lemma py_replace_keeps:
  "old \<noteq> [] \<Longrightarrow> c \<notin> set old \<Longrightarrow> c \<in> set s \<Longrightarrow> c \<in> set (py_replace old [] s)"
  by (simp add: py_replace_def replace_from_keeps)

lemma py_contains_set: "py_contains pat s \<Longrightarrow> set pat \<subseteq> set s"
proof (induction s)
  case Nil
  then show ?case by simp
next
  case (Cons a s)
  then show ?case using set_mono_prefix [of pat "a # s"] by auto
qed

lemma split_nonempty: "py_split_char sep s \<noteq> []"
  by (induction s) (auto split: list.splits)

lemma split_single: "py_split_char sep s = [a] \<Longrightarrow> s = a \<and> sep \<notin> set a"
  by (induction s arbitrary: a) (auto split: if_splits list.splits simp: split_nonempty)

lemma split_two: "py_split_char sep s = [a, b] \<Longrightarrow> s = a @ sep # b \<and> sep \<notin> set a \<and> sep \<notin> set b"
proof (induction s arbitrary: a)
  case Nil
  then show ?case by simp
next
  case (Cons c s)
  show ?case
  proof (cases "c = sep")
    case True
    with Cons.prems have "a = []" "py_split_char sep s = [b]" by auto
    with True split_single [of sep s b] show ?thesis by simp
  next
    case False
    with Cons.prems obtain p where "py_split_char sep s = [p, b]" "a = c # p"
      by (auto split: list.splits)
    with Cons.IH [of p] False show ?thesis by simp
  qed
qed

lemma split_no_sep: "sep \<notin> set a \<Longrightarrow> py_split_char sep a = [a]"
  by (induction a) auto

lemma split_two_conv:
  "sep \<notin> set a \<Longrightarrow> sep \<notin> set b \<Longrightarrow> py_split_char sep (a @ sep # b) = [a, b]"
  by (induction a) (auto simp: split_no_sep)

lemma strip_chars_set: "set s \<subseteq> set (strip_chars ws s) \<union> set ws"
proof -
  let ?P = "\<lambda>c. c \<in> set ws"
  let ?t = "dropWhile ?P s"
  have "set s = set (takeWhile ?P s) \<union> set ?t"
    by (metis set_append takeWhile_dropWhile_id)
  moreover have "set (takeWhile ?P s) \<subseteq> set ws"
    by (auto dest: set_takeWhileD)
  moreover have "set ?t = set (takeWhile ?P (rev ?t)) \<union> set (dropWhile ?P (rev ?t))"
    by (metis set_append set_rev takeWhile_dropWhile_id)
  moreover have "set (takeWhile ?P (rev ?t)) \<subseteq> set ws"
    by (auto dest: set_takeWhileD)
  ultimately show ?thesis
    unfolding strip_chars_def by auto
qed

lemma drop_sign_set: "set s \<subseteq> {CHR ''+'', CHR ''-''} \<union> set (snd (drop_sign s))"
  by (auto simp: drop_sign_def split: list.splits)

lemma split_first_set:
  "set s \<subseteq> set (fst (split_first c s)) \<union> {c} \<union> (case snd (split_first c s) of None \<Rightarrow> {} | Some r \<Rightarrow> set r)"
proof (cases "dropWhile (\<lambda>d. d \<noteq> c) s")
  case Nil
  then have "set s = set (takeWhile (\<lambda>d. d \<noteq> c) s)"
    by (metis append_Nil2 takeWhile_dropWhile_id)
  then show ?thesis unfolding split_first_def fst_conv by blast
next
  case (Cons x r)
  then have "x = c" using hd_dropWhile [of "\<lambda>d. d \<noteq> c" s] by auto
  moreover have "set s = set (takeWhile (\<lambda>d. d \<noteq> c) s) \<union> set (x # r)"
    using Cons by (metis set_append takeWhile_dropWhile_id)
  ultimately show ?thesis using Cons by (simp add: split_first_def)
qed

lemma float_chars_members:
  "set digit_chars \<subseteq> set float_chars" "CHR ''_'' \<in> set float_chars"
  "CHR ''.'' \<in> set float_chars" "CHR ''e'' \<in> set float_chars"
  "CHR ''+'' \<in> set float_chars" "CHR ''-'' \<in> set float_chars"
  "set ''inf'' \<subseteq> set float_chars" "set ''infinity'' \<subseteq> set float_chars"
  "set ''nan'' \<subseteq> set float_chars"
  by (simp_all add: float_chars_def digit_chars_def)

lemma digitpart_set: "digitpart p \<Longrightarrow> set p \<subseteq> insert (CHR ''_'') (set digit_chars)"
  by (induction p rule: digitpart.induct) (auto simp: is_digit_def split: if_splits)

lemma digitpart_float_chars: "digitpart p \<Longrightarrow> set p \<subseteq> set float_chars"
  using digitpart_set [of p] float_chars_members(1,2) by blast

lemma mantissa_set:
  assumes "split_first (CHR ''.'') m = (ip, fp)" and "mantissa_ok ip fp"
  shows "set m \<subseteq> set float_chars"
proof -
  have ip: "set ip \<subseteq> set float_chars"
    using assms(2) digitpart_float_chars [of ip]
    by (cases fp) (auto simp: mantissa_ok_def)
  have fp: "(case fp of None \<Rightarrow> {} | Some r \<Rightarrow> set r) \<subseteq> set float_chars"
  proof (cases fp)
    case None
    then show ?thesis by simp
  next
    case (Some f)
    then have "f = [] \<or> digitpart f" using assms(2) by (simp add: mantissa_ok_def)
    then show ?thesis using Some digitpart_float_chars [of f] by auto
  qed
  have "set m \<subseteq> set ip \<union> {CHR ''.''} \<union> (case fp of None \<Rightarrow> {} | Some r \<Rightarrow> set r)"
    using split_first_set [of m "CHR ''.''"] assms(1) by simp
  with ip fp float_chars_members(3) show ?thesis by blast
qed

lemma exponent_set:
  assumes "exponent_ok ex"
  shows "(case ex of None \<Rightarrow> {} | Some r \<Rightarrow> set r) \<subseteq> set float_chars"
proof (cases ex)
  case None
  then show ?thesis by simp
next
  case (Some x)
  then have "digitpart (snd (drop_sign x))" using assms by (simp add: exponent_ok_def)
  then have "set (snd (drop_sign x)) \<subseteq> set float_chars" by (rule digitpart_float_chars)
  then have "set x \<subseteq> set float_chars"
    using drop_sign_set [of x] float_chars_members(5,6) by blast
  with Some show ?thesis by simp
qed

lemma number_body_set:
  assumes "split_first (CHR ''e'') body = (m, ex)" and "split_first (CHR ''.'') m = (ip, fp)"
    and "mantissa_ok ip fp" and "exponent_ok ex"
  shows "set body \<subseteq> set float_chars"
proof -
  have "set body \<subseteq> set m \<union> {CHR ''e''} \<union> (case ex of None \<Rightarrow> {} | Some r \<Rightarrow> set r)"
    using split_first_set [of body "CHR ''e''"] assms(1) by simp
  with mantissa_set [OF assms(2,3)] exponent_set [OF assms(4)] float_chars_members(4)
  show ?thesis by blast
qed

lemma py_float_body_set:
  assumes "py_float s = Inr v" and "drop_sign (py_lower (strip_chars float_space s)) = (neg, body)"
  shows "set body \<subseteq> set float_chars"
proof -
  obtain m ex where m: "split_first (CHR ''e'') body = (m, ex)"
    by (cases "split_first (CHR ''e'') body")
  obtain ip fp where ip: "split_first (CHR ''.'') m = (ip, fp)"
    by (cases "split_first (CHR ''.'') m")
  have unf: "py_float s =
     (if body = ''inf'' \<or> body = ''infinity'' then Inr (if neg then NegInf else PosInf)
      else if body = ''nan'' then Inr NaN
      else if mantissa_ok ip fp \<and> exponent_ok ex
        then Inr (round_double ((if neg then - 1 else 1) * decimal_value ip fp ex))
        else Inl ValueError)"
    by (simp only: py_float_def assms(2) m ip Let_def case_prod_conv)
  have "py_float s = Inl ValueError"
    if "body \<noteq> ''inf''" "body \<noteq> ''infinity''" "body \<noteq> ''nan''"
      "\<not> (mantissa_ok ip fp \<and> exponent_ok ex)"
    by (simp only: unf that if_False simp_thms)
  with assms(1)
  consider "body = ''inf''" | "body = ''infinity''" | "body = ''nan''"
    | "mantissa_ok ip fp \<and> exponent_ok ex"
    by (metis Inl_Inr_False)
  then show ?thesis
  proof cases
    case 1
    then show ?thesis using float_chars_members(7) by simp
  next
    case 2
    then show ?thesis using float_chars_members(8) by simp
  next
    case 3
    then show ?thesis using float_chars_members(9) by simp
  next
    case 4
    then show ?thesis using number_body_set [OF m ip] by simp
  qed
qed

lemma space_not_upper: "set float_space \<inter> set ascii_uppercase = {}"
  by (simp add: float_space_def ascii_uppercase_def)

lemma lower_space: "c \<in> set float_space \<Longrightarrow> lower_char c = c"
  using space_not_upper by (intro lower_char_fixed) blast

lemma py_float_chars:
  assumes "py_float s = Inr v" and "c \<in> set s"
  shows "lower_char c \<in> set float_chars \<union> set float_space"
proof (cases "c \<in> set float_space")
  case True
  then show ?thesis by (simp add: lower_space)
next
  case False
  let ?t = "py_lower (strip_chars float_space s)"
  obtain neg body where b: "drop_sign ?t = (neg, body)" by (cases "drop_sign ?t")
  from False assms(2) have "c \<in> set (strip_chars float_space s)"
    using strip_chars_set [of s float_space] by auto
  then have "lower_char c \<in> set ?t" by (simp add: py_lower_def)
  then have "lower_char c \<in> {CHR ''+'', CHR ''-''} \<union> set body"
    using drop_sign_set [of ?t] b by auto
  then show ?thesis using py_float_body_set [OF assms(1) b] float_chars_members(5,6) by auto
qed

lemma not_float_char:
  "lower_char (CHR ''u'') \<notin> set float_chars \<union> set float_space"
  "lower_char (CHR ''m'') \<notin> set float_chars \<union> set float_space"
  "lower_char (CHR ''<'') \<notin> set float_chars \<union> set float_space"
  "lower_char (CHR ''>'') \<notin> set float_chars \<union> set float_space"
  "lower_char (CHR ''H'') \<notin> set float_chars \<union> set float_space"
  "lower_char (CHR ''L'') \<notin> set float_chars \<union> set float_space"
  by (simp_all add: float_chars_def float_space_def lower_char_def ascii_uppercase_def
        ascii_lowercase_def)

lemma py_float_excludes:
  assumes "py_float s = Inr v"
  shows "CHR ''u'' \<notin> set s" and "CHR ''m'' \<notin> set s" and "CHR ''<'' \<notin> set s"
    and "CHR ''>'' \<notin> set s" and "CHR ''H'' \<notin> set s" and "CHR ''L'' \<notin> set s"
  using py_float_chars [OF assms] not_float_char by blast+

lemma py_lower_Nil_iff: "py_lower s = [] \<longleftrightarrow> s = []"
  by (simp add: py_lower_def)

lemma dropWhile_fixed: "xs = [] \<or> \<not> P (hd xs) \<Longrightarrow> dropWhile P xs = xs"
  by (cases xs) auto

lemma strip_chars_ends:
  "strip_chars ws s = [] \<or> (hd (strip_chars ws s) \<notin> set ws \<and> last (strip_chars ws s) \<notin> set ws)"
proof -
  let ?P = "\<lambda>c. c \<in> set ws"
  define u where "u = dropWhile ?P s"
  define w where "w = dropWhile ?P (rev u)"
  have v: "strip_chars ws s = rev w" by (simp add: strip_chars_def u_def w_def)
  show ?thesis
  proof (cases "w = []")
    case True
    then show ?thesis by (simp add: v)
  next
    case False
    have l: "\<not> ?P (hd w)" using False unfolding w_def by (rule hd_dropWhile)
    have "rev u = takeWhile ?P (rev u) @ w" by (simp add: w_def)
    then have "last (rev u) = last w" using False by (metis last_appendR)
    moreover have un: "u \<noteq> []" using False by (auto simp: w_def)
    ultimately have "hd u = last w" by (simp add: last_rev)
    moreover have "\<not> ?P (hd u)" using un unfolding u_def by (rule hd_dropWhile)
    ultimately have "\<not> ?P (last w)" by simp
    with l False show ?thesis by (simp add: v last_rev hd_rev)
  qed
qed

lemma strip_chars_idem: "strip_chars ws (strip_chars ws s) = strip_chars ws s"
proof -
  let ?t = "strip_chars ws s"
  let ?P = "\<lambda>c. c \<in> set ws"
  from strip_chars_ends [of ws s] show ?thesis
  proof
    assume "?t = []"
    then show ?thesis by (simp add: strip_chars_def [of ws "[]"])
  next
    assume e: "hd ?t \<notin> set ws \<and> last ?t \<notin> set ws"
    show ?thesis
    proof (cases "?t = []")
      case True
      then show ?thesis by (simp add: strip_chars_def [of ws "[]"])
    next
      case False
      have a: "dropWhile ?P ?t = ?t" using e by (intro dropWhile_fixed) simp
      have "hd (rev ?t) = last ?t" using False by (simp add: hd_rev)
      then have b: "dropWhile ?P (rev ?t) = rev ?t" using e by (intro dropWhile_fixed) simp
      show ?thesis unfolding strip_chars_def [of ws ?t] a b by simp
    qed
  qed
qed

lemma py_strip_idem: "py_strip (py_strip s) = py_strip s"
  by (simp add: py_strip_def strip_chars_idem)

lemma lower_char_cases: "lower_char c = c \<or> lower_char c \<in> set ascii_lowercase"
proof (cases "map_of (zip ascii_uppercase ascii_lowercase) c")
  case None
  then show ?thesis by (simp add: lower_char_def)
next
  case (Some d)
  then have "d \<in> set ascii_lowercase" by (auto dest!: map_of_SomeD set_zip_rightD)
  with Some show ?thesis by (simp add: lower_char_def)
qed

lemma py_space_not_letter:
  "set py_space \<inter> set ascii_uppercase = {}" "set py_space \<inter> set ascii_lowercase = {}"
  by (simp_all add: py_space_def float_space_def ascii_uppercase_def ascii_lowercase_def)

lemma lower_char_space: "lower_char c \<in> set py_space \<longleftrightarrow> c \<in> set py_space"
proof
  assume "lower_char c \<in> set py_space"
  with lower_char_cases [of c] py_space_not_letter(2) show "c \<in> set py_space" by auto
next
  assume "c \<in> set py_space"
  with py_space_not_letter(1) have "lower_char c = c" by (intro lower_char_fixed) blast
  with \<open>c \<in> set py_space\<close> show "lower_char c \<in> set py_space" by simp
qed

lemma py_lower_strip: "py_lower (py_strip s) = py_strip (py_lower s)"
proof -
  have c: "(\<lambda>c. c \<in> set py_space) \<circ> lower_char = (\<lambda>c. c \<in> set py_space)"
    by (auto simp: lower_char_space)
  show ?thesis
    by (simp add: py_lower_def py_strip_def strip_chars_def dropWhile_map rev_map c)
qed

lemma strip_lower_strip: "py_strip (py_lower (py_strip s)) = py_lower (py_strip s)"
  by (simp add: py_lower_strip [symmetric] py_strip_idem)

lemma strip_chars_decomp:
  "\<exists>a b. s = a @ strip_chars ws s @ b \<and> set a \<subseteq> set ws \<and> set b \<subseteq> set ws"
proof -
  let ?P = "\<lambda>c. c \<in> set ws"
  define u where "u = dropWhile ?P s"
  define w where "w = dropWhile ?P (rev u)"
  have "s = takeWhile ?P s @ u" by (simp add: u_def)
  moreover have "rev u = takeWhile ?P (rev u) @ w" by (simp add: w_def)
  then have "u = rev w @ rev (takeWhile ?P (rev u))"
    by (metis rev_append rev_rev_ident)
  moreover have "set (takeWhile ?P s) \<subseteq> set ws" by (auto dest: set_takeWhileD)
  moreover have "set (rev (takeWhile ?P (rev u))) \<subseteq> set ws" by (auto dest: set_takeWhileD)
  moreover have "strip_chars ws s = rev w" by (simp add: strip_chars_def u_def w_def)
  ultimately show ?thesis by metis
qed

lemma dropWhile_all: "set a \<subseteq> {c. P c} \<Longrightarrow> dropWhile P (a @ t) = dropWhile P t"
  by (induction a) auto

lemma strip_chars_padded:
  assumes "set a \<subseteq> set ws" and "set b \<subseteq> set ws"
    and "t = [] \<or> (hd t \<notin> set ws \<and> last t \<notin> set ws)"
  shows "strip_chars ws (a @ t @ b) = t"
proof (cases "t = []")
  case True
  have d: "dropWhile (\<lambda>c. c \<in> set ws) (a @ b) = []"
    using assms(1,2) by (auto simp: dropWhile_eq_Nil_conv)
  show ?thesis unfolding strip_chars_def True
    by (simp only: append_Nil d rev.simps dropWhile.simps)
next
  case False
  let ?P = "\<lambda>c. c \<in> set ws"
  from False assms(3) have h: "\<not> ?P (hd t)" and l: "\<not> ?P (last t)" by auto
  have "dropWhile ?P (a @ t @ b) = dropWhile ?P (t @ b)"
    using assms(1) by (intro dropWhile_all) auto
  also have "\<dots> = t @ b" using False h by (cases t) auto
  finally have 1: "dropWhile ?P (a @ t @ b) = t @ b" .
  have "dropWhile ?P (rev (t @ b)) = dropWhile ?P (rev b @ rev t)" by simp
  also have "\<dots> = dropWhile ?P (rev t)" using assms(2) by (intro dropWhile_all) auto
  also have "\<dots> = rev t" using False l by (cases "rev t") (auto simp: hd_rev)
  finally show ?thesis by (simp add: strip_chars_def 1)
qed

lemma float_space_not_letter:
  "set float_space \<inter> set ascii_lowercase = {}"
  by (simp add: float_space_def ascii_lowercase_def)

lemma lower_char_float_space: "lower_char c \<in> set float_space \<longleftrightarrow> c \<in> set float_space"
proof
  assume "lower_char c \<in> set float_space"
  with lower_char_cases [of c] float_space_not_letter show "c \<in> set float_space" by auto
next
  assume "c \<in> set float_space"
  then show "lower_char c \<in> set float_space" by (simp add: lower_space)
qed

lemma lower_strip_float: "py_lower (strip_chars float_space s) = strip_chars float_space (py_lower s)"
proof -
  have c: "(\<lambda>c. c \<in> set float_space) \<circ> lower_char = (\<lambda>c. c \<in> set float_space)"
    by (auto simp: lower_char_float_space)
  show ?thesis
    by (simp add: py_lower_def strip_chars_def dropWhile_map rev_map c)
qed

lemma py_float_cong:
  "py_lower (strip_chars float_space s) = py_lower (strip_chars float_space s') \<Longrightarrow>
     py_float s = py_float s'"
  by (simp only: py_float_def)

lemma py_float_lower: "py_float (py_lower s) = py_float s"
  by (rule py_float_cong) (simp add: lower_strip_float [symmetric] py_lower_idem)

lemma py_float_core_no_blank:
  assumes "py_float s = Inr v"
  shows "CHR '' '' \<notin> set (strip_chars float_space s)"
proof
  assume b: "CHR '' '' \<in> set (strip_chars float_space s)"
  let ?t = "py_lower (strip_chars float_space s)"
  obtain neg body where d: "drop_sign ?t = (neg, body)" by (cases "drop_sign ?t")
  have "lower_char (CHR '' '') = CHR '' ''" by (simp add: lower_space float_space_def)
  with b have "CHR '' '' \<in> set ?t" by (force simp: py_lower_def)
  then have "CHR '' '' \<in> {CHR ''+'', CHR ''-''} \<union> set body"
    using drop_sign_set [of ?t] d by auto
  then have "CHR '' '' \<in> set float_chars"
    using py_float_body_set [OF assms d] by auto
  then show False by (simp add: float_chars_def)
qed

lemma py_float_remove_blanks:
  assumes "py_float s = Inr v"
  shows "py_float (filter (\<lambda>c. c \<noteq> CHR '' '') s) = Inr v"
proof -
  let ?F = "filter (\<lambda>c. c \<noteq> CHR '' '')"
  let ?t = "strip_chars float_space s"
  from strip_chars_decomp [of s float_space] obtain a b where
    s: "s = a @ ?t @ b" and a: "set a \<subseteq> set float_space" and b: "set b \<subseteq> set float_space"
    by blast
  have t: "?F ?t = ?t" using py_float_core_no_blank [OF assms] by (auto simp: filter_id_conv)
  have "?F s = ?F a @ ?F ?t @ ?F b" by (subst s) simp
  then have "?F s = ?F a @ ?t @ ?F b" by (simp only: t)
  moreover have "set (?F a) \<subseteq> set float_space" "set (?F b) \<subseteq> set float_space"
    using a b by auto
  ultimately have "strip_chars float_space (?F s) = ?t"
    using strip_chars_padded [of "?F a" float_space "?F b" ?t] strip_chars_ends [of float_space s]
    by simp
  then have "py_float (?F s) = py_float s" by (intro py_float_cong) simp
  with assms show ?thesis by simp
qed

lemma normalize_range_append:
  "normalize_range (a @ b) = normalize_range a @ normalize_range b"
  by (simp add: normalize_range_def py_replace_def replace_from_single py_lower_def)

lemma normalize_range_dash: "normalize_range ''-'' = ''-''"
  by (simp add: normalize_range_def py_replace_def py_lower_def lower_char_def
        ascii_uppercase_def ascii_lowercase_def)

lemma normalize_range_float:
  assumes "py_float s = Inr v"
  shows "py_float (normalize_range s) = Inr v"
proof -
  have "py_float (py_lower s) = Inr v" using assms by (simp add: py_float_lower)
  from py_float_remove_blanks [OF this] show ?thesis
    by (simp add: normalize_range_def py_replace_def replace_from_single)
qed

lemma normalize_range_no_dash:
  assumes "CHR ''-'' \<notin> set s"
  shows "CHR ''-'' \<notin> set (normalize_range s)"
proof
  assume "CHR ''-'' \<in> set (normalize_range s)"
  then have "CHR ''-'' \<in> set (py_lower s)"
    by (simp add: normalize_range_def py_replace_def replace_from_single)
  then obtain c where c: "c \<in> set s" "lower_char c = CHR ''-''"
    by (auto simp: py_lower_def)
  from lower_char_cases [of c] c(2) have "c = CHR ''-''"
    by (auto simp: ascii_lowercase_def)
  with c(1) assms show False by simp
qed

section \<open>The abnormality detector\<close>

lemma flt_less_trans: "flt_less a b \<Longrightarrow> flt_less b c \<Longrightarrow> flt_less a c"
  by (cases a; cases b; cases c) auto

lemma flt_less_irrefl: "\<not> flt_less a a"
  by (cases a) auto

lemma interval_then_rest:
  assumes "shape_interval v rng = Inr None" and "CHR ''-'' \<in> set rng"
  shows "shape_upper v rng = Inr None \<and> shape_lower v rng = Inr None"
proof -
  from assms obtain low high lo hi where
    sp: "py_split_char (CHR ''-'') rng = [low, high]"
    and lo: "py_float low = Inr lo" and hi: "py_float high = Inr hi"
    by (auto simp: shape_interval_def split: list.splits sum.splits if_splits)
  from split_two [OF sp] have rng: "set rng = set low \<union> {CHR ''-''} \<union> set high" by auto
  have no: "CHR ''u'' \<notin> set rng" "CHR ''m'' \<notin> set rng" "CHR ''<'' \<notin> set rng" "CHR ''>'' \<notin> set rng"
    using py_float_excludes(1-4) [OF lo] py_float_excludes(1-4) [OF hi] rng by auto
  have "\<not> py_contains ''upto'' rng" using py_contains_set [of "''upto''" rng] no(1) by auto
  moreover have "\<not> prefix ''<'' rng" using set_mono_prefix [of "''<''" rng] no(3) by auto
  moreover have "\<not> py_contains ''morethan'' rng" using py_contains_set [of "''morethan''" rng] no(2) by auto
  moreover have "\<not> prefix ''>'' rng" using set_mono_prefix [of "''>''" rng] no(4) by auto
  ultimately show ?thesis by (simp add: shape_upper_def shape_lower_def)
qed

lemma upper_then_lower:
  assumes "shape_upper v rng = Inr None" and "py_contains ''upto'' rng \<or> prefix ''<'' rng"
  shows "shape_lower v rng = Inr None"
proof -
  let ?r = "py_replace ''<'' [] (py_replace ''upto'' [] rng)"
  from assms obtain limit where lim: "py_float ?r = Inr limit"
    by (auto simp: shape_upper_def split: sum.splits if_splits)
  have keep: "c \<in> set rng \<Longrightarrow> c \<notin> set ''upto'' \<Longrightarrow> c \<noteq> CHR ''<'' \<Longrightarrow> c \<in> set ?r" for c
    using py_replace_keeps [of "''upto''" c rng]
      py_replace_keeps [of "''<''" c "py_replace ''upto'' [] rng"] by simp
  have "CHR ''m'' \<notin> set rng" using keep [of "CHR ''m''"] py_float_excludes(2) [OF lim] by auto
  moreover have "CHR ''>'' \<notin> set rng" using keep [of "CHR ''>''"] py_float_excludes(4) [OF lim] by auto
  ultimately have "\<not> py_contains ''morethan'' rng" "\<not> prefix ''>'' rng"
    using py_contains_set [of "''morethan''" rng] set_mono_prefix [of "''>''" rng] by auto
  then show ?thesis by (simp add: shape_lower_def)
qed

lemma shape_interval_skip: "CHR ''-'' \<notin> set rng \<Longrightarrow> shape_interval v rng = Inr None"
  by (simp add: shape_interval_def)

lemma shape_upper_skip:
  "\<not> (py_contains ''upto'' rng \<or> prefix ''<'' rng) \<Longrightarrow> shape_upper v rng = Inr None"
  by (simp add: shape_upper_def)

lemma shape_lower_skip:
  "\<not> (py_contains ''morethan'' rng \<or> prefix ''>'' rng) \<Longrightarrow> shape_lower v rng = Inr None"
  by (simp add: shape_lower_def)

lemma try_block_first_match:
  "(case try_block v nr of Inl _ \<Rightarrow> None | Inr r \<Rightarrow> r) =
   (let rng = normalize_range nr;
        r = (if CHR ''-'' \<in> set rng then shape_interval v rng
             else if py_contains ''upto'' rng \<or> prefix ''<'' rng then shape_upper v rng
             else if py_contains ''morethan'' rng \<or> prefix ''>'' rng then shape_lower v rng
             else Inr None)
    in (case r of Inl _ \<Rightarrow> None | Inr c \<Rightarrow> c))"
proof -
  let ?rng = "normalize_range nr"
  show ?thesis
  proof (cases "CHR ''-'' \<in> set ?rng")
    case True
    show ?thesis
    proof (cases "shape_interval v ?rng = Inr None")
      case n: True
      with interval_then_rest [OF n True] True show ?thesis
        by (simp add: try_block_def and_then_def Let_def)
    next
      case False
      with True show ?thesis
        by (auto simp: try_block_def and_then_def Let_def split: sum.splits option.splits)
    qed
  next
    case nd: False
    note i = shape_interval_skip [OF nd, of v]
    show ?thesis
    proof (cases "py_contains ''upto'' ?rng \<or> prefix ''<'' ?rng")
      case True
      show ?thesis
      proof (cases "shape_upper v ?rng = Inr None")
        case n: True
        with upper_then_lower [OF n True] True nd i show ?thesis
          by (simp add: try_block_def and_then_def Let_def)
      next
        case False
        with True nd i show ?thesis
          by (auto simp: try_block_def and_then_def Let_def split: sum.splits option.splits)
      qed
    next
      case False
      note u = shape_upper_skip [OF False, of v]
      show ?thesis
      proof (cases "py_contains ''morethan'' ?rng \<or> prefix ''>'' ?rng")
        case True
        with False nd i u show ?thesis
          by (simp add: try_block_def and_then_def Let_def)
      next
        case l: False
        with False nd i u shape_lower_skip [OF l, of v] show ?thesis
          by (simp add: try_block_def and_then_def Let_def)
      qed
    qed
  qed
qed

lemma detector_first_match: "get_abnormal_type rv nr = first_match_only rv nr"
  unfolding get_abnormal_type_def first_match_only_def
  by (simp only: try_block_first_match)

lemma normalize_range_Nil: "normalize_range [] = []"
  by (simp add: normalize_range_def py_replace_def py_lower_def)

lemma interval_classification:
  assumes "normalize_range nr = lo_s @ ''-'' @ hi_s"
    and "CHR ''-'' \<notin> set lo_s" and "CHR ''-'' \<notin> set hi_s"
    and "py_float lo_s = Inr lo" and "py_float hi_s = Inr hi"
    and "parse_value rv = Some v"
  shows "get_abnormal_type rv (Some nr) =
           (if flt_less v lo then Some ''low'' else if flt_less hi v then Some ''high'' else None)"
proof -
  let ?rng = "normalize_range nr"
  have ne: "nr \<noteq> []" using assms(1) normalize_range_Nil by auto
  have dash: "CHR ''-'' \<in> set ?rng" using assms(1) by simp
  have sp: "py_split_char (CHR ''-'') ?rng = [lo_s, hi_s]"
    using split_two_conv [OF assms(2,3)] assms(1) by simp
  have "shape_interval v ?rng =
          (if flt_less v lo then Inr (Some ''low'')
           else if flt_less hi v then Inr (Some ''high'') else Inr None)"
    by (simp add: shape_interval_def dash sp assms(4,5))
  then show ?thesis
    using ne dash assms(6)
    by (simp add: detector_first_match first_match_only_def Let_def)
qed

lemma remove_flags:
  "py_replace ''L'' [] (py_replace ''H'' [] s) = filter (\<lambda>c. c \<noteq> CHR ''H'' \<and> c \<noteq> CHR ''L'') s"
  by (simp add: py_replace_def replace_from_single conj_commute)

text \<open>
  Claim C4, as stated, at a range with a negative lower bound: the text \<^verbatim>\<open>-2-5\<close> is
  of the form low-high with the numeric bounds $-2 < 5$, and the value $-3$ lies below the
  lower bound, yet the result is \<^verbatim>\<open>None\<close> and not \<^verbatim>\<open>"low"\<close>:
  \<^verbatim>\<open>rng.split("-")\<close> yields three parts and the unpacking raises.
\<close>

theorem interval_negative_bound_counterexample:
  "py_float ''-2'' = Inr (Finite (- 2)) \<and> py_float ''5'' = Inr (Finite 5) \<and>
   flt_less (Finite (- 2)) (Finite 5) \<and>
   parse_value (Some ''-3'') = Some (Finite (- 3)) \<and>
   flt_less (Finite (- 3)) (Finite (- 2)) \<and>
   get_abnormal_type (Some ''-3'') (Some ''-2-5'') = None"
  by code_simp

text \<open>
  Claim C4, amended: for every range text low-high in which neither bound text contains
  a minus sign, both bound texts parse as numbers and low \<open><\<close> high, and for every value
  that parses to \<open>v\<close>, the detector returns \<^verbatim>\<open>"low"\<close> exactly when \<open>v < low\<close>,
  \<^verbatim>\<open>"high"\<close> exactly when \<open>v > high\<close>, and \<^verbatim>\<open>None\<close> otherwise; a value equal to a
  bound gives \<^verbatim>\<open>None\<close>. Blanks around the bounds and the letter case do not matter.
\<close>

theorem interval_low_high_none:
  assumes "nr = lo_s @ ''-'' @ hi_s"
    and "CHR ''-'' \<notin> set lo_s" and "CHR ''-'' \<notin> set hi_s"
    and "py_float lo_s = Inr lo" and "py_float hi_s = Inr hi" and "flt_less lo hi"
    and "parse_value rv = Some v"
  shows "(get_abnormal_type rv (Some nr) = Some ''low'' \<longleftrightarrow> flt_less v lo) \<and>
         (get_abnormal_type rv (Some nr) = Some ''high'' \<longleftrightarrow> flt_less hi v) \<and>
         (get_abnormal_type rv (Some nr) = None \<longleftrightarrow> \<not> flt_less v lo \<and> \<not> flt_less hi v)"
proof -
  have n: "normalize_range nr = normalize_range lo_s @ ''-'' @ normalize_range hi_s"
    by (simp only: assms(1) normalize_range_append normalize_range_dash)
  have c: "get_abnormal_type rv (Some nr) =
           (if flt_less v lo then Some ''low'' else if flt_less hi v then Some ''high'' else None)"
    by (rule interval_classification [OF n normalize_range_no_dash [OF assms(2)]
          normalize_range_no_dash [OF assms(3)] normalize_range_float [OF assms(4)]
          normalize_range_float [OF assms(5)] assms(7)])
  have "\<not> (flt_less v lo \<and> flt_less hi v)"
    using assms(6) flt_less_trans flt_less_irrefl by blast
  then show ?thesis
    using c by auto
qed

theorem interval_low_high_none_witness:
  "CHR ''-'' \<notin> set ''3.5 '' \<and> CHR ''-'' \<notin> set '' 5.5'' \<and>
   py_float ''3.5 '' = Inr (Finite (7 / 2)) \<and> py_float '' 5.5'' = Inr (Finite (11 / 2)) \<and>
   flt_less (Finite (7 / 2)) (Finite (11 / 2)) \<and>
   parse_value (Some ''6.2'') = Some (Finite (6980579422424269 / 1125899906842624)) \<and>
   get_abnormal_type (Some ''6.2'') (Some ''3.5 - 5.5'') = Some ''high''"
proof -
  have h1: "''3.5 - 5.5'' = ''3.5 '' @ ''-'' @ '' 5.5''" by simp
  have h2: "CHR ''-'' \<notin> set ''3.5 ''" by simp
  have h3: "CHR ''-'' \<notin> set '' 5.5''" by simp
  have h4: "py_float ''3.5 '' = Inr (Finite (7 / 2))" by code_simp
  have h5: "py_float '' 5.5'' = Inr (Finite (11 / 2))" by code_simp
  have h6: "flt_less (Finite (7 / 2)) (Finite (11 / 2))" by simp
  have h7: "parse_value (Some ''6.2'') = Some (Finite (6980579422424269 / 1125899906842624))"
    by code_simp
  have "flt_less (Finite (11 / 2)) (Finite (6980579422424269 / 1125899906842624))" by simp
  with interval_low_high_none [OF h1 h2 h3 h4 h5 h6 h7]
  have "get_abnormal_type (Some ''6.2'') (Some ''3.5 - 5.5'') = Some ''high''" by blast
  with h2 h3 h4 h5 h6 h7 show ?thesis by blast
qed



text \<open>
  Claim C6, as stated, at the value text \<^verbatim>\<open>1H2\<close>: the letter \<^verbatim>\<open>H\<close> is not at the end,
  so with trailing flags removed only the text stays \<^verbatim>\<open>1H2\<close>, which is no number;
  \<^verbatim>\<open>parse_value\<close> removes the letter all the same, reads $12$, and the detector
  classifies the value against the range \<^verbatim>\<open>0-5\<close> as \<^verbatim>\<open>"high"\<close>.
\<close>

theorem parse_value_inner_flag_counterexample:
  "parse_value_trailing_flags (Some ''1H2'') = None \<and>
   parse_value (Some ''1H2'') = Some (Finite 12) \<and>
   get_abnormal_type (Some ''1H2'') (Some ''0-5'') = Some ''high''"
  by code_simp

text \<open>
  Claim C6, amended: for every raw value text the value parser removes every occurrence
  of the upper-case letters \<^verbatim>\<open>H\<close> and \<^verbatim>\<open>L\<close>, wherever it stands, and no other
  character, strips the surrounding whitespace and parses the remainder as a
  floating-point number; a missing or unparsable value gives the classification
  \<^verbatim>\<open>None\<close>.
\<close>

theorem parse_value_removes_flags:
  "parse_value None = None \<and>
   parse_value (Some s) =
     (case py_float (py_strip (filter (\<lambda>c. c \<noteq> CHR ''H'' \<and> c \<noteq> CHR ''L'') s)) of
        Inl _ \<Rightarrow> None
      | Inr x \<Rightarrow> Some x) \<and>
   (parse_value rv = None \<longrightarrow> get_abnormal_type rv nr = None)"
  by (simp add: parse_value_def remove_flags get_abnormal_type_def)

theorem parse_value_removes_flags_witness:
  "parse_value (Some ''n.a.'') = None \<and>
   get_abnormal_type (Some ''n.a.'') (Some ''3.5-5.5'') = None"
proof -
  have h: "parse_value (Some ''n.a.'') = None" by code_simp
  with parse_value_removes_flags [of "''n.a.''" "Some ''n.a.''" "Some ''3.5-5.5''"]
  show ?thesis by blast
qed

section \<open>The bulk insert of test results\<close>

lemma test_row_Some:
  "test_row repr rid t = Inr (Some r) \<longleftrightarrow>
     (\<exists>n c rg cid.
        as_str (py_or (dict_get t ''test_name'') (JStr [])) = Inr n \<and>
        as_str (py_or (dict_get t ''test_context'') (JStr [])) = Inr c \<and>
        as_str (py_or (dict_get t ''reference_range'')
                  (py_or (dict_get t ''normal_range'') (JStr []))) = Inr rg \<and>
        sqlite_bind (dict_get t ''canonical_id'') = Inr cid \<and>
        py_strip n \<noteq> [] \<and>
        py_strip (py_str repr (py_or (dict_get t ''value'') (JStr []))) \<noteq> [] \<and>
        r = \<lparr>tr_report_id = rid, tr_canonical_id = cid,
             tr_test_name = py_lower (py_strip n), tr_test_context = py_lower (py_strip c),
             tr_value = py_strip (py_str repr (py_or (dict_get t ''value'') (JStr []))),
             tr_unit = py_strip (py_str repr (py_or (dict_get t ''unit'') (JStr []))),
             tr_normal_range = py_strip rg\<rparr>)"
  by (auto simp: test_row_def Let_def py_lower_Nil_iff split: sum.splits)


lemma insert_rows_result:
  "insert_rows repr rid tests rows = Inr rows' \<Longrightarrow>
     \<exists>new. rows' = rows @ new \<and>
       list_all2 (\<lambda>t r. test_row repr rid t = Inr (Some r))
         (filter (\<lambda>t. test_row repr rid t \<noteq> Inr None) tests) new"
proof (induction tests arbitrary: rows)
  case Nil
  then show ?case by simp
next
  case (Cons t ts)
  show ?case
  proof (cases "test_row repr rid t")
    case (Inl e)
    with Cons.prems show ?thesis by simp
  next
    case (Inr x)
    show ?thesis
    proof (cases x)
      case None
      with Inr Cons.prems have "insert_rows repr rid ts rows = Inr rows'" by simp
      from Cons.IH [OF this] Inr None show ?thesis by simp
    next
      case (Some r)
      with Inr Cons.prems have "insert_rows repr rid ts (rows @ [r]) = Inr rows'" by simp
      from Cons.IH [OF this] obtain new where
        "rows' = (rows @ [r]) @ new"
        "list_all2 (\<lambda>t r. test_row repr rid t = Inr (Some r))
           (filter (\<lambda>t. test_row repr rid t \<noteq> Inr None) ts) new" by blast
      with Inr Some show ?thesis by (intro exI [of _ "r # new"]) simp
    qed
  qed
qed



lemma row_normal_form:
  assumes "test_row repr rid t = Inr (Some r)"
  shows "py_lower (tr_test_name r) = tr_test_name r" "py_strip (tr_test_name r) = tr_test_name r"
    "py_lower (tr_test_context r) = tr_test_context r"
    "py_strip (tr_test_context r) = tr_test_context r"
    "py_strip (tr_value r) = tr_value r" "py_strip (tr_unit r) = tr_unit r"
    "tr_test_name r \<noteq> []" "tr_value r \<noteq> []"
  using assms unfolding test_row_Some
  by (auto simp: py_lower_idem strip_lower_strip py_strip_idem py_lower_Nil_iff)


lemma list_all2_right_witness:
  "list_all2 P xs ys \<Longrightarrow> r \<in> set ys \<Longrightarrow> \<exists>t \<in> set xs. P t r"
  by (induction rule: list_all2_induct) auto





text \<open>
  Claim C10: every row persisted by the bulk insert has its \<^verbatim>\<open>test_name\<close> and
  \<^verbatim>\<open>test_context\<close> lower-cased and stripped and its \<^verbatim>\<open>value\<close> and \<^verbatim>\<open>unit\<close>
  converted to stripped strings by \<^verbatim>\<open>insert_test_results\<close> itself, whatever the casing
  of the entry it comes from: a persisted test name equals its own lower-cased form.
\<close>

theorem persisted_rows_normalised:
  "case insert_test_results repr table rid tests of
      (Some e, table') \<Rightarrow> table' = table
    | (None, table') \<Rightarrow>
        (\<exists>new. table' = table @ new \<and>
           (\<forall>r \<in> set new.
              py_lower (tr_test_name r) = tr_test_name r \<and>
              py_strip (tr_test_name r) = tr_test_name r \<and>
              py_lower (tr_test_context r) = tr_test_context r \<and>
              py_strip (tr_test_context r) = tr_test_context r \<and>
              py_strip (tr_value r) = tr_value r \<and> py_strip (tr_unit r) = tr_unit r \<and>
              (\<exists>t \<in> set tests. \<exists>n c.
                 as_str (py_or (dict_get t ''test_name'') (JStr [])) = Inr n \<and>
                 tr_test_name r = py_lower (py_strip n) \<and>
                 as_str (py_or (dict_get t ''test_context'') (JStr [])) = Inr c \<and>
                 tr_test_context r = py_lower (py_strip c) \<and>
                 tr_value r = py_strip (py_str repr (py_or (dict_get t ''value'') (JStr []))) \<and>
                 tr_unit r = py_strip (py_str repr (py_or (dict_get t ''unit'') (JStr []))))))"
proof (cases "insert_rows repr rid tests table")
  case (Inl e)
  then show ?thesis by (simp add: insert_test_results_def)
next
  case (Inr table')
  from insert_rows_result [OF Inr] obtain new where
    n: "table' = table @ new"
       "list_all2 (\<lambda>t r. test_row repr rid t = Inr (Some r))
          (filter (\<lambda>t. test_row repr rid t \<noteq> Inr None) tests) new" by blast
  have "\<forall>r \<in> set new.
              py_lower (tr_test_name r) = tr_test_name r \<and>
              py_strip (tr_test_name r) = tr_test_name r \<and>
              py_lower (tr_test_context r) = tr_test_context r \<and>
              py_strip (tr_test_context r) = tr_test_context r \<and>
              py_strip (tr_value r) = tr_value r \<and> py_strip (tr_unit r) = tr_unit r \<and>
              (\<exists>t \<in> set tests. \<exists>n c.
                 as_str (py_or (dict_get t ''test_name'') (JStr [])) = Inr n \<and>
                 tr_test_name r = py_lower (py_strip n) \<and>
                 as_str (py_or (dict_get t ''test_context'') (JStr [])) = Inr c \<and>
                 tr_test_context r = py_lower (py_strip c) \<and>
                 tr_value r = py_strip (py_str repr (py_or (dict_get t ''value'') (JStr []))) \<and>
                 tr_unit r = py_strip (py_str repr (py_or (dict_get t ''unit'') (JStr []))))"
  proof
    fix r assume "r \<in> set new"
    from list_all2_right_witness [OF n(2) this] obtain t where
      t: "t \<in> set tests" "test_row repr rid t = Inr (Some r)" by auto
    from t(2) obtain n c where
      "as_str (py_or (dict_get t ''test_name'') (JStr [])) = Inr n"
      "tr_test_name r = py_lower (py_strip n)"
      "as_str (py_or (dict_get t ''test_context'') (JStr [])) = Inr c"
      "tr_test_context r = py_lower (py_strip c)"
      "tr_value r = py_strip (py_str repr (py_or (dict_get t ''value'') (JStr [])))"
      "tr_unit r = py_strip (py_str repr (py_or (dict_get t ''unit'') (JStr [])))"
      using test_row_Some [THEN iffD1, OF t(2)] by auto
    with t(1) row_normal_form(1-6) [OF t(2)]
    show "py_lower (tr_test_name r) = tr_test_name r \<and>
              py_strip (tr_test_name r) = tr_test_name r \<and>
              py_lower (tr_test_context r) = tr_test_context r \<and>
              py_strip (tr_test_context r) = tr_test_context r \<and>
              py_strip (tr_value r) = tr_value r \<and> py_strip (tr_unit r) = tr_unit r \<and>
              (\<exists>t \<in> set tests. \<exists>n c.
                 as_str (py_or (dict_get t ''test_name'') (JStr [])) = Inr n \<and>
                 tr_test_name r = py_lower (py_strip n) \<and>
                 as_str (py_or (dict_get t ''test_context'') (JStr [])) = Inr c \<and>
                 tr_test_context r = py_lower (py_strip c) \<and>
                 tr_value r = py_strip (py_str repr (py_or (dict_get t ''value'') (JStr []))) \<and>
                 tr_unit r = py_strip (py_str repr (py_or (dict_get t ''unit'') (JStr []))))"
      by blast
  qed
  with n(1) Inr show ?thesis by (simp add: insert_test_results_def)
qed

section \<open>Identity resolution\<close>





lemma match_accepted:
  "ai_match_test_name loads post name cands = Inr (Some m) \<longleftrightarrow>
     cands \<noteq> [] \<and>
     (\<exists>d c. matcher_output loads post name (map et_name cands) = Inr (JObj d) \<and>
        dict_get d ''match'' = m \<and> truthy m \<and> m \<noteq> JStr ''no_match'' \<and>
        json_float (dict_get_default d ''confidence'' (JInt 0)) = Inr c \<and>
        flt_ge c MATCH_CONFIDENCE_THRESHOLD)"
  by (auto simp: ai_match_test_name_def split: sum.splits json.splits if_splits)

lemma match_below_threshold:
  assumes "matcher_output loads post name (map et_name cands) = Inr (JObj d)"
    and "json_float (dict_get_default d ''confidence'' (JInt 0)) = Inr c"
    and "flt_less c MATCH_CONFIDENCE_THRESHOLD"
  shows "ai_match_test_name loads post name cands = Inr None"
  using assms by (simp add: ai_match_test_name_def flt_ge_def)

lemma resolve_test_result:
  assumes "resolve_test loads post existing t = Inr t'"
  shows "\<exists>name n ty panel cands.
           dict_index t ''test_name'' = Inr name \<and> as_str name = Inr n \<and>
           classify_test_type_of name (dict_get_default t ''unit'' (JStr [])) = Inr ty \<and>
           extract_panel_of name = Inr panel \<and>
           select_candidates ty panel (dict_get_default t ''unit'' (JStr [])) existing = Inr cands \<and>
           ((ai_match_test_name loads post n cands = Inr None \<and> t' = t) \<or>
            (\<exists>m. ai_match_test_name loads post n cands = Inr (Some m) \<and>
                 t' = dict_set t ''test_name'' m))"
proof -
  from assms obtain name where 1: "dict_index t ''test_name'' = Inr name"
    by (auto simp: resolve_test_def split: sum.splits)
  let ?u = "dict_get_default t ''unit'' (JStr [])"
  from assms 1 obtain ty where 2: "classify_test_type_of name ?u = Inr ty"
    by (auto simp: resolve_test_def Let_def split: sum.splits)
  from assms 1 2 obtain panel where 3: "extract_panel_of name = Inr panel"
    by (auto simp: resolve_test_def Let_def split: sum.splits)
  from assms 1 2 3 obtain cands where 4: "select_candidates ty panel ?u existing = Inr cands"
    by (auto simp: resolve_test_def Let_def split: sum.splits)
  from assms 1 2 3 4 obtain n where 5: "as_str name = Inr n"
    by (auto simp: resolve_test_def Let_def split: sum.splits)
  from assms 1 2 3 4 5 obtain x where 6: "ai_match_test_name loads post n cands = Inr x"
    by (auto simp: resolve_test_def Let_def split: sum.splits)
  show ?thesis
  proof (cases x)
    case None
    with assms 1 2 3 4 5 6 have "t' = t" by (simp add: resolve_test_def Let_def)
    with None 1 2 3 4 5 6 show ?thesis by blast
  next
    case (Some m)
    with 6 have "truthy m" using match_accepted [of loads post n cands m] by blast
    with Some assms 1 2 3 4 5 6 have "t' = dict_set t ''test_name'' m"
      by (simp add: resolve_test_def Let_def)
    with Some 1 2 3 4 5 6 show ?thesis by blast
  qed
qed


lemma threshold_value:
  "MATCH_CONFIDENCE_THRESHOLD = Finite (8106479329266893 / 9007199254740992)"
  by code_simp

declare threshold_value [code]

text \<open>
  Claim C3: the name of a new test is rewritten if and only if the matcher was consulted
  and its response parses as a JSON object whose \<^verbatim>\<open>match\<close> field is non-empty and not
  \<^verbatim>\<open>no_match\<close> and whose confidence, converted by \<^verbatim>\<open>float\<close>, is at least the
  threshold, the binary64 number written \<^verbatim>\<open>0.9\<close>; a response with a confidence
  strictly below the threshold leaves the test as extracted.
\<close>

theorem rewrite_iff_confident_match:
  "(ai_match_test_name loads post name cands = Inr (Some m) \<longleftrightarrow>
      cands \<noteq> [] \<and>
      (\<exists>d c. matcher_output loads post name (map et_name cands) = Inr (JObj d) \<and>
         dict_get d ''match'' = m \<and> truthy m \<and> m \<noteq> JStr ''no_match'' \<and>
         json_float (dict_get_default d ''confidence'' (JInt 0)) = Inr c \<and>
         flt_ge c MATCH_CONFIDENCE_THRESHOLD)) \<and>
   (matcher_output loads post name (map et_name cands) = Inr (JObj d') \<and>
    json_float (dict_get_default d' ''confidence'' (JInt 0)) = Inr c' \<and>
    flt_less c' MATCH_CONFIDENCE_THRESHOLD \<longrightarrow>
      ai_match_test_name loads post name cands = Inr None) \<and>
   (resolve_test loads post existing t = Inr t' \<longrightarrow>
      (\<exists>n ty panel cs.
         dict_index t ''test_name'' = Inr (JStr n) \<and>
         classify_test_type_of (JStr n) (dict_get_default t ''unit'' (JStr [])) = Inr ty \<and>
         extract_panel_of (JStr n) = Inr panel \<and>
         select_candidates ty panel (dict_get_default t ''unit'' (JStr [])) existing = Inr cs \<and>
         ((ai_match_test_name loads post n cs = Inr None \<and> t' = t) \<or>
          (\<exists>m. ai_match_test_name loads post n cs = Inr (Some m) \<and>
               t' = dict_set t ''test_name'' m)))) \<and>
   MATCH_CONFIDENCE_THRESHOLD = Finite (8106479329266893 / 9007199254740992)"
proof (intro conjI impI)
  show "ai_match_test_name loads post name cands = Inr (Some m) \<longleftrightarrow>
      cands \<noteq> [] \<and>
      (\<exists>d c. matcher_output loads post name (map et_name cands) = Inr (JObj d) \<and>
         dict_get d ''match'' = m \<and> truthy m \<and> m \<noteq> JStr ''no_match'' \<and>
         json_float (dict_get_default d ''confidence'' (JInt 0)) = Inr c \<and>
         flt_ge c MATCH_CONFIDENCE_THRESHOLD)"
    by (rule match_accepted)
next
  assume "matcher_output loads post name (map et_name cands) = Inr (JObj d') \<and>
    json_float (dict_get_default d' ''confidence'' (JInt 0)) = Inr c' \<and>
    flt_less c' MATCH_CONFIDENCE_THRESHOLD"
  then show "ai_match_test_name loads post name cands = Inr None"
    using match_below_threshold by blast
next
  assume "resolve_test loads post existing t = Inr t'"
  from resolve_test_result [OF this] obtain name n ty panel cs where
    r: "dict_index t ''test_name'' = Inr name" "as_str name = Inr n"
       "classify_test_type_of name (dict_get_default t ''unit'' (JStr [])) = Inr ty"
       "extract_panel_of name = Inr panel"
       "select_candidates ty panel (dict_get_default t ''unit'' (JStr [])) existing = Inr cs"
       "(ai_match_test_name loads post n cs = Inr None \<and> t' = t) \<or>
        (\<exists>m. ai_match_test_name loads post n cs = Inr (Some m) \<and>
             t' = dict_set t ''test_name'' m)"
    by blast
  from r(2) have "name = JStr n" by (cases name) (simp_all add: as_str_def)
  with r show "\<exists>n ty panel cs.
         dict_index t ''test_name'' = Inr (JStr n) \<and>
         classify_test_type_of (JStr n) (dict_get_default t ''unit'' (JStr [])) = Inr ty \<and>
         extract_panel_of (JStr n) = Inr panel \<and>
         select_candidates ty panel (dict_get_default t ''unit'' (JStr [])) existing = Inr cs \<and>
         ((ai_match_test_name loads post n cs = Inr None \<and> t' = t) \<or>
          (\<exists>m. ai_match_test_name loads post n cs = Inr (Some m) \<and>
               t' = dict_set t ''test_name'' m))"
    by blast
next
  show "MATCH_CONFIDENCE_THRESHOLD = Finite (8106479329266893 / 9007199254740992)"
    by (rule threshold_value)
qed

theorem rewrite_iff_confident_match_witness:
  "matcher_output
     (map_of [(''body'', JObj [(''response'', JStr ''reply'')]),
              (''reply'', JObj [(''match'', JStr ''Total Cholesterol''),
                 (''confidence'', JFloat (Finite (8016407336719483 / 9007199254740992)))])])
     (\<lambda>name candidates. Inr ''body'') ''cholesterol total''
     (map et_name (get_existing_tests_for_patient [(''Total Cholesterol'', ''mg/dL'')])) =
     Inr (JObj [(''match'', JStr ''Total Cholesterol''),
                (''confidence'', JFloat (Finite (8016407336719483 / 9007199254740992)))]) \<and>
   flt_less (Finite (8016407336719483 / 9007199254740992)) MATCH_CONFIDENCE_THRESHOLD \<and>
   ai_match_test_name
     (map_of [(''body'', JObj [(''response'', JStr ''reply'')]),
              (''reply'', JObj [(''match'', JStr ''Total Cholesterol''),
                 (''confidence'', JFloat (Finite (8016407336719483 / 9007199254740992)))])])
     (\<lambda>name candidates. Inr ''body'') ''cholesterol total''
     (get_existing_tests_for_patient [(''Total Cholesterol'', ''mg/dL'')]) = Inr None \<and>
   resolve_test
     (map_of [(''body'', JObj [(''response'', JStr ''reply'')]),
              (''reply'', JObj [(''match'', JStr ''Total Cholesterol''),
                 (''confidence'', JFloat (Finite (4278419646001971 / 4503599627370496)))])])
     (\<lambda>name candidates. Inr ''body'')
     (get_existing_tests_for_patient [(''Total Cholesterol'', ''mg/dL'')])
     [(''test_name'', JStr ''cholesterol total''), (''value'', JStr ''210''),
      (''unit'', JStr ''mg/dl'')] =
     Inr [(''test_name'', JStr ''Total Cholesterol''), (''value'', JStr ''210''),
          (''unit'', JStr ''mg/dl'')]"
proof -
  let ?d = "[(''match'', JStr ''Total Cholesterol''),
             (''confidence'', JFloat (Finite (8016407336719483 / 9007199254740992)))]"
  let ?loads = "map_of [(''body'', JObj [(''response'', JStr ''reply'')]), (''reply'', JObj ?d)]"
  let ?post = "\<lambda>name candidates :: string list. Inr ''body'' :: py_error + string"
  let ?existing = "get_existing_tests_for_patient [(''Total Cholesterol'', ''mg/dL'')]"
  have h1: "matcher_output ?loads ?post ''cholesterol total'' (map et_name ?existing) = Inr (JObj ?d)"
    by code_simp
  have h2: "json_float (dict_get_default ?d ''confidence'' (JInt 0)) =
              Inr (Finite (8016407336719483 / 9007199254740992))"
    by code_simp
  have h3: "flt_less (Finite (8016407336719483 / 9007199254740992)) MATCH_CONFIDENCE_THRESHOLD"
    by (simp add: threshold_value)
  from rewrite_iff_confident_match [where loads = ?loads and post = ?post
      and name = "''cholesterol total''" and cands = ?existing and d' = ?d
      and c' = "Finite (8016407336719483 / 9007199254740992)"] h1 h2 h3
  have a: "ai_match_test_name ?loads ?post ''cholesterol total'' ?existing = Inr None"
    by blast
  have b: "resolve_test
     (map_of [(''body'', JObj [(''response'', JStr ''reply'')]),
              (''reply'', JObj [(''match'', JStr ''Total Cholesterol''),
                 (''confidence'', JFloat (Finite (4278419646001971 / 4503599627370496)))])])
     (\<lambda>name candidates. Inr ''body'')
     (get_existing_tests_for_patient [(''Total Cholesterol'', ''mg/dL'')])
     [(''test_name'', JStr ''cholesterol total''), (''value'', JStr ''210''),
      (''unit'', JStr ''mg/dl'')] =
     Inr [(''test_name'', JStr ''Total Cholesterol''), (''value'', JStr ''210''),
          (''unit'', JStr ''mg/dl'')]"
    by code_simp
  from h1 h3 a b show ?thesis by blast
qed




text \<open>
  A name with upper-case letters through the whole processing of a document: the matcher
  answers \<^verbatim>\<open>Total Cholesterol\<close> with confidence 0.95, the resolver adopts the name,
  and the row is stored under \<^verbatim>\<open>total cholesterol\<close>.
\<close>

theorem persisted_rows_normalised_witness:
  "add_document
     (map_of [(''page body'', JObj [(''response'', JStr ''page reply'')]),
              (''page reply'', JObj [(''tests'', JArr [JObj
                 [(''test_name'', JStr ''Cholesterol  Total''),
                  (''test_context'', JStr '' Lipid Profile''),
                  (''value'', JStr ''210 ''), (''unit'', JStr ''mg/dL''),
                  (''reference_range'', JStr [])]])]),
              (''match body'', JObj [(''response'', JStr ''match reply'')]),
              (''match reply'', JObj [(''match'', JStr ''Total Cholesterol''),
                 (''confidence'', JFloat (Finite (4278419646001971 / 4503599627370496)))])])
     (\<lambda>page. Inr ''page body'')
     (\<lambda>name candidates. Inr ''match body'')
     (\<lambda>v. ''?'') [] [(''total cholesterol'', ''mg/dl'')] 3
     [''Cholesterol Total 210 mg/dL''] =
     (None, [\<lparr>tr_report_id = 3, tr_canonical_id = JNull, tr_test_name = ''total cholesterol'',
              tr_test_context = ''lipid profile'', tr_value = ''210'', tr_unit = ''mg/dL'',
              tr_normal_range = []\<rparr>]) \<and>
   py_lower ''total cholesterol'' = ''total cholesterol'' \<and>
   py_strip ''lipid profile'' = ''lipid profile'' \<and> py_strip ''210'' = ''210''"
proof -
  let ?loads = "map_of [(''page body'', JObj [(''response'', JStr ''page reply'')]),
              (''page reply'', JObj [(''tests'', JArr [JObj
                 [(''test_name'', JStr ''Cholesterol  Total''),
                  (''test_context'', JStr '' Lipid Profile''),
                  (''value'', JStr ''210 ''), (''unit'', JStr ''mg/dL''),
                  (''reference_range'', JStr [])]])]),
              (''match body'', JObj [(''response'', JStr ''match reply'')]),
              (''match reply'', JObj [(''match'', JStr ''Total Cholesterol''),
                 (''confidence'', JFloat (Finite (4278419646001971 / 4503599627370496)))])]"
  let ?pe = "\<lambda>page :: string. Inr ''page body'' :: py_error + string"
  let ?pm = "\<lambda>(name :: string) (candidates :: string list). Inr ''match body'' :: py_error + string"
  let ?resolved = "[[(''test_name'', JStr ''Total Cholesterol''),
                     (''test_context'', JStr '' Lipid Profile''),
                     (''value'', JStr ''210 ''), (''unit'', JStr ''mg/dL''),
                     (''reference_range'', JStr [])]]"
  let ?row = "\<lparr>tr_report_id = 3, tr_canonical_id = JNull, tr_test_name = ''total cholesterol'',
              tr_test_context = ''lipid profile'', tr_value = ''210'', tr_unit = ''mg/dL'',
              tr_normal_range = []\<rparr>"
  have m: "(case merge_pages (extract_tests_from_page ?loads ?pe) [''Cholesterol Total 210 mg/dL''] of
             Inl e \<Rightarrow> Inl e
           | Inr all_tests \<Rightarrow>
               resolve_all ?loads ?pm
                 (get_existing_tests_for_patient [(''total cholesterol'', ''mg/dl'')]) all_tests)
           = Inr ?resolved"
    by code_simp
  have e: "insert_test_results (\<lambda>v. ''?'') [] 3 ?resolved = (None, [?row])"
    by code_simp
  have a: "add_document ?loads ?pe ?pm (\<lambda>v. ''?'') [] [(''total cholesterol'', ''mg/dl'')] 3
             [''Cholesterol Total 210 mg/dL''] = (None, [?row])"
    using m e by (auto simp: add_document_def split: sum.splits)
  from persisted_rows_normalised [where repr = "\<lambda>v. ''?''" and table = "[]" and rid = 3
      and tests = ?resolved]
  have "py_lower ''total cholesterol'' = ''total cholesterol'' \<and>
        py_strip ''lipid profile'' = ''lipid profile'' \<and> py_strip ''210'' = ''210''"
    unfolding e by simp
  with a show ?thesis by blast
qed

section \<open>Merging the pages of a document\<close>








section \<open>The extraction call\<close>

lemma extract_request_failure:
  "post page = Inl RequestException \<Longrightarrow> extract_tests_from_page loads post page = Inr []"
  by (simp add: extract_tests_from_page_def)

lemma extract_malformed_reply:
  assumes "post page = Inr body" and "loads body = Some (JObj d)"
    and "dict_get_default d ''response'' (JStr []) = JStr raw"
    and "parse_tests loads (py_strip raw) = Inl e"
  shows "extract_tests_from_page loads post page = Inr []"
  using assms by (simp add: extract_tests_from_page_def as_str_def)

lemma extract_non_json_body:
  "post page = Inr body \<Longrightarrow> loads body = None \<Longrightarrow>
     extract_tests_from_page loads post page = Inl JSONDecodeError"
  by (simp add: extract_tests_from_page_def)

text \<open>
  Claim C9 at a response whose body is no JSON text (the error page of a gateway):
  \<^verbatim>\<open>res.json()\<close> on line 111 stands outside both \<^verbatim>\<open>try\<close> blocks, so the exception
  reaches the caller instead of an empty list. Here \<open>loads\<close> is \<^verbatim>\<open>json.loads\<close> on
  the one text it is asked about.
\<close>

theorem extraction_non_json_body_raises:
  "extract_tests_from_page (\<lambda>s. None) (\<lambda>page. Inr ''<html>502 Bad Gateway</html>'')
     ''Glucose 98 mg/dL'' = Inl JSONDecodeError"
  by (simp add: extract_tests_from_page_def)

end
